theory Spec2Isabelle
  imports Complex_Main
begin

section \<open>Values, exceptions and the socket environment\<close>

text \<open>
  Both programs talk to the vehicle through a blocking TCP socket. The model threads an
  explicit world through every socket call: \<open>script\<close> holds what the network will
  answer to the next calls that can fail (\<open>send\<close>, \<open>recv\<close>, \<open>connect\<close>), one outcome
  per call, and \<open>trace\<close> records every call the program made, in order. A call on an
  exhausted script times out. Log output (\<open>rospy.log*\<close>) is not part of the model.
  A Python \<open>bytes\<close> value is a list of \<open>char\<close>, one per byte; a socket object is a
  number, fresh for every \<open>socket.socket\<close> call.
\<close>

type_synonym byte = char
type_synonym bytes = "byte list"
type_synonym sock = nat

datatype exn =
    SocketTimeout
  | SocketError
  | JSONDecodeError
  | UnicodeDecodeError
  | ValueError
  | TypeError
  | AttributeError
  | KeyError
  | UnboundLocalError
  | ROSInterruptException

datatype 'a result = Returned 'a | Raised exn

datatype outcome = Data bytes | TimedOut | SockErr

datatype action =
    ACreate sock
  | AConnect sock
  | ASetTimeout sock rat
  | AKeepAlive sock
  | ASend sock bytes
  | ARecv sock int
  | AClose sock
  | ASleep rat

record world =
  script :: "outcome list"
  trace :: "action list"
  next_sock :: sock

definition next_outcome :: "world \<Rightarrow> outcome \<times> world" where
  "next_outcome w =
     (case script w of [] \<Rightarrow> (TimedOut, w) | x # xs \<Rightarrow> (x, w\<lparr>script := xs\<rparr>))"

definition record_action :: "action \<Rightarrow> world \<Rightarrow> world" where
  "record_action a w = w\<lparr>trace := trace w @ [a]\<rparr>"

text \<open>\<open>socket.socket(AF_INET, SOCK_STREAM)\<close>: a fresh socket object.\<close>

definition socket_new :: "world \<Rightarrow> sock \<times> world" where
  "socket_new w =
     (next_sock w, record_action (ACreate (next_sock w)) (w\<lparr>next_sock := Suc (next_sock w)\<rparr>))"

text \<open>\<open>s.connect(addr)\<close>: succeeds, or raises \<open>socket.timeout\<close> or \<open>socket.error\<close>.\<close>

definition sock_connect :: "sock \<Rightarrow> world \<Rightarrow> (exn + unit) \<times> world" where
  "sock_connect s w =
     (case next_outcome w of (oc, w1) \<Rightarrow>
        (case oc of
           Data _ \<Rightarrow> (Inr (), record_action (AConnect s) w1)
         | TimedOut \<Rightarrow> (Inl SocketTimeout, record_action (AConnect s) w1)
         | SockErr \<Rightarrow> (Inl SocketError, record_action (AConnect s) w1)))"

text \<open>\<open>s.send(msg)\<close>: the number of bytes written is ignored by both programs.\<close>

definition sock_send :: "sock \<Rightarrow> bytes \<Rightarrow> world \<Rightarrow> (exn + unit) \<times> world" where
  "sock_send s msg w =
     (case next_outcome w of (oc, w1) \<Rightarrow>
        (case oc of
           Data _ \<Rightarrow> (Inr (), record_action (ASend s msg) w1)
         | TimedOut \<Rightarrow> (Inl SocketTimeout, record_action (ASend s msg) w1)
         | SockErr \<Rightarrow> (Inl SocketError, record_action (ASend s msg) w1)))"

text \<open>
  \<open>s.recv(n)\<close>: at most \<open>n\<close> bytes of what the network delivers; the empty byte string
  means that the peer has closed the connection.
\<close>

definition sock_recv :: "sock \<Rightarrow> int \<Rightarrow> world \<Rightarrow> (exn + bytes) \<times> world" where
  "sock_recv s n w =
     (case next_outcome w of (oc, w1) \<Rightarrow>
        (case oc of
           Data bs \<Rightarrow> (Inr (take (nat n) bs), record_action (ARecv s n) w1)
         | TimedOut \<Rightarrow> (Inl SocketTimeout, record_action (ARecv s n) w1)
         | SockErr \<Rightarrow> (Inl SocketError, record_action (ARecv s n) w1)))"

definition sock_close :: "sock \<Rightarrow> world \<Rightarrow> world" where
  "sock_close s w = record_action (AClose s) w"

definition sock_settimeout :: "sock \<Rightarrow> rat \<Rightarrow> world \<Rightarrow> world" where
  "sock_settimeout s t w = record_action (ASetTimeout s t) w"

definition sock_keepalive :: "sock \<Rightarrow> world \<Rightarrow> world" where
  "sock_keepalive s w = record_action (AKeepAlive s) w"

definition time_sleep :: "rat \<Rightarrow> world \<Rightarrow> world" where
  "time_sleep t w = record_action (ASleep t) w"

section \<open>agv_laser_get.py: receive_full_data\<close>

text \<open>
  The \<open>while remaining > 0\<close> loop of \<open>receive_full_data\<close>. A \<open>recv\<close> that raises ends
  the function with that exception; an empty chunk returns \<open>None\<close>.
\<close>

function receive_full_data_loop ::
  "sock \<Rightarrow> bytes \<Rightarrow> int \<Rightarrow> world \<Rightarrow> bytes option result \<times> world" where
  "receive_full_data_loop s received remaining w =
     (if remaining > 0 then
        (case sock_recv s (min remaining 8192) w of
           (Inl e, w1) \<Rightarrow> (Raised e, w1)
         | (Inr chunk, w1) \<Rightarrow>
             if chunk = [] then (Returned None, w1)
             else receive_full_data_loop s (received @ chunk)
                    (remaining - int (length chunk)) w1)
      else (Returned (Some received), w))"
  by pat_completeness auto
termination
  by (relation "measure (\<lambda>(s, received, remaining, w). nat remaining)") auto

definition receive_full_data :: "sock \<Rightarrow> int \<Rightarrow> world \<Rightarrow> bytes option result \<times> world" where
  "receive_full_data s expected_len w =
     (case receive_full_data_loop s [] expected_len w of
        (Returned (Some received), w1) \<Rightarrow>
          if int (length received) \<noteq> expected_len then (Returned None, w1)
          else (Returned (Some received), w1)
      | (r, w1) \<Rightarrow> (r, w1))"

section \<open>JSON values and the external modules\<close>

text \<open>
  A number decoded by \<open>json.loads\<close> is a Python \<open>int\<close> or \<open>float\<close>. Every finite
  one is a rational; \<open>json.loads\<close> also accepts \<open>NaN\<close>, \<open>Infinity\<close> and
  \<open>-Infinity\<close>. Only comparisons are made on them, and Python compares exactly.
\<close>

datatype number = Finite rat | PosInf | NegInf | NaN

datatype json =
    JNull
  | JBool bool
  | JNum number
  | JStr string
  | JArr "json list"
  | JObj "(string \<times> json) list"

text \<open>\<open>d.get(key, default)\<close>; anything but a dict has no \<open>get\<close>.\<close>

definition py_get :: "json \<Rightarrow> string \<Rightarrow> json \<Rightarrow> exn + json" where
  "py_get d k dflt =
     (case d of
        JObj kvs \<Rightarrow> Inr (case map_of kvs k of None \<Rightarrow> dflt | Some v \<Rightarrow> v)
      | _ \<Rightarrow> Inl AttributeError)"

text \<open>\<open>v == 0\<close>: true for the numbers \<open>0\<close> and \<open>0.0\<close> and for \<open>False\<close>.\<close>

fun py_eq_zero :: "json \<Rightarrow> bool" where
  "py_eq_zero (JNum (Finite q)) = (q = 0)"
| "py_eq_zero (JBool b) = (\<not> b)"
| "py_eq_zero _ = False"

text \<open>
  The vendor module \<open>rbkNetProtoEnums\<close> (\<open>packMsg\<close>, \<open>unpackHead\<close>, the API numbers)
  and the standard \<open>json\<close> decoder are not part of the repository; they are parameters
  of the model. \<open>packMsg\<close> yields the request bytes, empty when packing fails (the
  programs test \<open>if not request_msg\<close>). \<open>unpackHead\<close> yields the declared length of
  the data area and the second header field, or raises. \<open>json_loads\<close> stands for
  \<open>json.loads(data.decode('utf-8'))\<close>, which raises \<open>UnicodeDecodeError\<close> or
  \<open>JSONDecodeError\<close> on bad input.
\<close>

record extern =
  packMsg :: "int \<Rightarrow> int \<Rightarrow> json \<Rightarrow> bytes"
  unpackHead :: "bytes \<Rightarrow> exn + int \<times> int"
  json_loads :: "bytes \<Rightarrow> exn + json"
  robot_control_motion_req :: int
  robot_control_stop_req :: int
  robot_status_laser_req :: int

section \<open>agv_control.py: send_control_command\<close>

text \<open>How one pass through the \<open>try\<close> block of the retry loop ends.\<close>

datatype attempt =
    ReturnTrue
  | Continue
  | FellThrough
  | Threw exn

text \<open>
  The \<open>try\<close> block (lines 35 to 62): send, one \<open>recv(16)\<close> for the header, the
  length check, one \<open>recv(json_data_len)\<close> for the data area, decoding, \<open>ret_code\<close>.
\<close>

definition recv_resp_json :: "extern \<Rightarrow> sock \<Rightarrow> int \<Rightarrow> world \<Rightarrow> (exn + json) \<times> world" where
  "recv_resp_json x so json_data_len w =
     (if json_data_len > 0 then
        (case sock_recv so json_data_len w of
           (Inl e, w1) \<Rightarrow> (Inl e, w1)
         | (Inr resp_data, w1) \<Rightarrow> (json_loads x resp_data, w1))
      else (Inr (JObj []), w))"

definition check_ret_code :: "json \<Rightarrow> attempt" where
  "check_ret_code resp_json =
     (case py_get resp_json ''ret_code'' (JNum (Finite 0)) of
        Inl e \<Rightarrow> Threw e
      | Inr rc \<Rightarrow> if py_eq_zero rc then ReturnTrue else FellThrough)"

definition try_exchange :: "extern \<Rightarrow> sock \<Rightarrow> bytes \<Rightarrow> world \<Rightarrow> attempt \<times> world" where
  "try_exchange x so request_msg w =
     (case sock_send so request_msg w of
        (Inl e, w1) \<Rightarrow> (Threw e, w1)
      | (Inr _, w1) \<Rightarrow>
          (case sock_recv so 16 (sock_settimeout so 5 w1) of
             (Inl e, w2) \<Rightarrow> (Threw e, w2)
           | (Inr header, w2) \<Rightarrow>
               if length header \<noteq> 16 then (Continue, w2)
               else
                 (case unpackHead x header of
                    Inl e \<Rightarrow> (Threw e, w2)
                  | Inr (json_data_len, back_req_num) \<Rightarrow>
                      if json_data_len > 10 * 1024 * 1024 then (Continue, w2)
                      else
                        (case recv_resp_json x so json_data_len w2 of
                           (Inl e, w3) \<Rightarrow> (Threw e, w3)
                         | (Inr resp_json, w3) \<Rightarrow> (check_ret_code resp_json, w3)))))"

text \<open>\<open>if i < retry: time.sleep(0.5)\<close> at the end of the loop body.\<close>

definition pause :: "int \<Rightarrow> int \<Rightarrow> world \<Rightarrow> world" where
  "pause i retry w = (if i < retry then time_sleep (1 / 2) w else w)"

text \<open>
  The \<open>for i in range(retry + 1)\<close> loop over the remaining values of \<open>i\<close>, with the
  four handlers. \<open>continue\<close> skips the pause. Only the \<open>socket.error\<close> handler
  reconnects, and only when \<open>i < retry\<close>; a \<open>connect\<close> that raises there leaves the
  function, with \<open>so\<close> already bound to the new socket. The result carries the value of
  the global \<open>so\<close>.
\<close>

fun send_loop ::
  "extern \<Rightarrow> int \<Rightarrow> bytes \<Rightarrow> int list \<Rightarrow> sock \<Rightarrow> world \<Rightarrow> bool result \<times> sock \<times> world" where
  "send_loop x retry request_msg [] so w = (Returned False, so, w)"
| "send_loop x retry request_msg (i # rest) so w =
     (case try_exchange x so request_msg w of
        (ReturnTrue, w1) \<Rightarrow> (Returned True, so, w1)
      | (Continue, w1) \<Rightarrow> send_loop x retry request_msg rest so w1
      | (FellThrough, w1) \<Rightarrow> send_loop x retry request_msg rest so (pause i retry w1)
      | (Threw e, w1) \<Rightarrow>
          if e = SocketTimeout then send_loop x retry request_msg rest so (pause i retry w1)
          else if e = SocketError then
            (if i < retry then
               (case socket_new (sock_close so w1) of (so', w2) \<Rightarrow>
                  (case sock_connect so' w2 of
                     (Inl e', w3) \<Rightarrow> (Raised e', so', w3)
                   | (Inr _, w3) \<Rightarrow>
                       send_loop x retry request_msg rest so' (pause i retry w3)))
             else send_loop x retry request_msg rest so (pause i retry w1))
          else send_loop x retry request_msg rest so (pause i retry w1))"

definition send_control_command ::
  "extern \<Rightarrow> sock option \<Rightarrow> int \<Rightarrow> json \<Rightarrow> int \<Rightarrow> world \<Rightarrow> bool result \<times> sock option \<times> world" where
  "send_control_command x so_var api_type params retry w =
     (case so_var of
        None \<Rightarrow> (Returned False, None, w)
      | Some so \<Rightarrow>
          if packMsg x 1 api_type params = [] then (Returned False, Some so, w)
          else
            (case send_loop x retry (packMsg x 1 api_type params) [0..retry] so w of
               (r, so', w1) \<Rightarrow> (r, Some so', w1)))"

text \<open>The number of \<open>send\<close> calls in a trace.\<close>

fun is_send :: "action \<Rightarrow> bool" where
  "is_send (ASend _ _) = True"
| "is_send _ = False"

definition sends :: "action list \<Rightarrow> nat" where
  "sends tr = length (filter is_send tr)"

section \<open>agv_control.py: the keyboard control loop and its shutdown\<close>












section \<open>agv_laser_get.py: configuration and connection\<close>

definition AGV_IP :: string where
  "AGV_IP = ''192.168.1.121''"

definition API_PORT_STATE :: int where
  "API_PORT_STATE = 19204"

definition TIMEOUT :: rat where
  "TIMEOUT = 8"

definition LASER_STEP :: int where
  "LASER_STEP = 1"

text \<open>\<open>5.0\<close> is exact; \<open>0.1\<close> and \<open>0.01\<close> are the nearest doubles.\<close>

definition LASER_RANGE_MAX :: rat where
  "LASER_RANGE_MAX = 5"

definition LASER_RANGE_MIN :: rat where
  "LASER_RANGE_MIN = 3602879701896397 / 36028797018963968"

definition ROS_PUB_FREQ :: int where
  "ROS_PUB_FREQ = 10"

definition MAX_DATA_LEN :: int where
  "MAX_DATA_LEN = 10 * 1024 * 1024"

definition ROBOT_STATUS_LASER_RESP :: int where
  "ROBOT_STATUS_LASER_RESP = 11009"

definition validate_laser_params :: bool where
  "validate_laser_params =
     (if \<not> (0 \<le> LASER_STEP \<and> LASER_STEP \<le> 100) then False
      else if \<not> (5764607523034235 / 576460752303423488 \<le> LASER_RANGE_MIN
                  \<and> LASER_RANGE_MIN < LASER_RANGE_MAX \<and> LASER_RANGE_MAX \<le> 20) then False
      else if \<not> (1 \<le> ROS_PUB_FREQ \<and> ROS_PUB_FREQ \<le> 50) then False
      else True)"

definition validate_configuration :: bool where
  "validate_configuration =
     (if AGV_IP = [] \<or> take 7 AGV_IP \<noteq> ''192.168'' then False
      else if \<not> (1 \<le> API_PORT_STATE \<and> API_PORT_STATE \<le> 65535) then False
      else True)"

text \<open>The \<open>for attempt in range(3)\<close> loop of \<open>connect_to_agv\<close>.\<close>

fun connect_attempts :: "sock \<Rightarrow> int list \<Rightarrow> world \<Rightarrow> sock option \<times> world" where
  "connect_attempts sock [] w = (None, w)"
| "connect_attempts sock (attempt # rest) w =
     (case sock_connect sock w of
        (Inr _, w1) \<Rightarrow> (Some sock, w1)
      | (Inl e, w1) \<Rightarrow>
          if attempt < 2 then connect_attempts sock rest (time_sleep 3 w1)
          else (None, w1))"

definition connect_to_agv :: "world \<Rightarrow> sock option \<times> world" where
  "connect_to_agv w =
     (case socket_new w of (sock, w1) \<Rightarrow>
        connect_attempts sock [0, 1, 2] (sock_keepalive sock (sock_settimeout sock TIMEOUT w1)))"

section \<open>agv_laser_get.py: the beam filter\<close>

text \<open>\<open>key in v\<close>: key lookup in a dict, substring test in a string, membership in a list.\<close>

fun is_substring :: "string \<Rightarrow> string \<Rightarrow> bool" where
  "is_substring k [] = (k = [])"
| "is_substring k (c # cs) = (take (length k) (c # cs) = k \<or> is_substring k cs)"

definition py_in :: "string \<Rightarrow> json \<Rightarrow> exn + bool" where
  "py_in k v =
     (case v of
        JObj kvs \<Rightarrow> Inr (k \<in> set (map fst kvs))
      | JStr s \<Rightarrow> Inr (is_substring k s)
      | JArr vs \<Rightarrow> Inr (JStr k \<in> set vs)
      | _ \<Rightarrow> Inl TypeError)"

text \<open>\<open>d[key]\<close> on a dict.\<close>

definition py_getitem :: "json \<Rightarrow> string \<Rightarrow> exn + json" where
  "py_getitem d k =
     (case d of
        JObj kvs \<Rightarrow> (case map_of kvs k of None \<Rightarrow> Inl KeyError | Some v \<Rightarrow> Inr v)
      | _ \<Rightarrow> Inl TypeError)"

text \<open>Truth value of a decoded JSON value.\<close>

fun py_truthy :: "json \<Rightarrow> bool" where
  "py_truthy JNull = False"
| "py_truthy (JBool b) = b"
| "py_truthy (JNum (Finite q)) = (q \<noteq> 0)"
| "py_truthy (JNum _) = True"
| "py_truthy (JStr s) = (s \<noteq> [])"
| "py_truthy (JArr vs) = (vs \<noteq> [])"
| "py_truthy (JObj kvs) = (kvs \<noteq> [])"

text \<open>Iterating a value in a \<open>for\<close> loop: list items, the characters of a string, dict keys.\<close>

definition py_iter :: "json \<Rightarrow> exn + json list" where
  "py_iter v =
     (case v of
        JArr vs \<Rightarrow> Inr vs
      | JStr s \<Rightarrow> Inr (map (\<lambda>c. JStr [c]) s)
      | JObj kvs \<Rightarrow> Inr (map (\<lambda>kv. JStr (fst kv)) kvs)
      | _ \<Rightarrow> Inl TypeError)"

text \<open>
  The operand of an ordering comparison with a float: numbers, and booleans as 0 and 1;
  any other value raises \<open>TypeError\<close>.
\<close>

fun as_number :: "json \<Rightarrow> number option" where
  "as_number (JNum n) = Some n"
| "as_number (JBool b) = Some (Finite (if b then 1 else 0))"
| "as_number _ = None"

fun num_le :: "number \<Rightarrow> number \<Rightarrow> bool" where
  "num_le NaN _ = False"
| "num_le _ NaN = False"
| "num_le NegInf _ = True"
| "num_le _ PosInf = True"
| "num_le (Finite a) (Finite b) = (a \<le> b)"
| "num_le _ _ = False"

type_synonym points = "(json \<times> json) list"

text \<open>
  The body of the inner loop (lines 186 to 193) for one beam: the point to append, or
  nothing when the beam is skipped.
\<close>

definition keep_beam :: "rat \<Rightarrow> rat \<Rightarrow> json \<Rightarrow> exn + (json \<times> json) option" where
  "keep_beam range_min range_max beam =
     (case py_in ''angle'' beam of
        Inl e \<Rightarrow> Inl e
      | Inr False \<Rightarrow> Inr None
      | Inr True \<Rightarrow>
          (case py_in ''dist'' beam of
             Inl e \<Rightarrow> Inl e
           | Inr False \<Rightarrow> Inr None
           | Inr True \<Rightarrow>
               (case py_get beam ''valid'' (JBool False) of
                  Inl e \<Rightarrow> Inl e
                | Inr v \<Rightarrow>
                    if \<not> py_truthy v then Inr None
                    else
                      (case py_getitem beam ''dist'' of
                         Inl e \<Rightarrow> Inl e
                       | Inr d \<Rightarrow>
                           (case as_number d of
                              None \<Rightarrow> Inl TypeError
                            | Some n \<Rightarrow>
                                (case py_getitem beam ''angle'' of
                                   Inl e \<Rightarrow> Inl e
                                 | Inr a \<Rightarrow>
                                     if num_le (Finite range_min) n \<and> num_le n (Finite range_max)
                                     then Inr (Some (a, d))
                                     else Inr None))))))"

fun beams_loop :: "rat \<Rightarrow> rat \<Rightarrow> points \<Rightarrow> json list \<Rightarrow> exn + points" where
  "beams_loop range_min range_max valid_beams [] = Inr valid_beams"
| "beams_loop range_min range_max valid_beams (beam # rest) =
     (case keep_beam range_min range_max beam of
        Inl e \<Rightarrow> Inl e
      | Inr None \<Rightarrow> beams_loop range_min range_max valid_beams rest
      | Inr (Some p) \<Rightarrow> beams_loop range_min range_max (valid_beams @ [p]) rest)"

text \<open>The outer loop over the beam groups (lines 183 and 184).\<close>

fun lasers_loop :: "rat \<Rightarrow> rat \<Rightarrow> points \<Rightarrow> json list \<Rightarrow> exn + points" where
  "lasers_loop range_min range_max valid_beams [] = Inr valid_beams"
| "lasers_loop range_min range_max valid_beams (laser # rest) =
     (case py_get laser ''beams'' (JArr []) of
        Inl e \<Rightarrow> Inl e
      | Inr bs \<Rightarrow>
          (case py_iter bs of
             Inl e \<Rightarrow> Inl e
           | Inr beams \<Rightarrow>
               (case beams_loop range_min range_max valid_beams beams of
                  Inl e \<Rightarrow> Inl e
                | Inr valid_beams' \<Rightarrow> lasers_loop range_min range_max valid_beams' rest)))"

text \<open>Lines 182 to 193: \<open>valid_beams\<close> after both loops.\<close>

definition filter_beams :: "rat \<Rightarrow> rat \<Rightarrow> json list \<Rightarrow> exn + points" where
  "filter_beams range_min range_max laser_beams = lasers_loop range_min range_max [] laser_beams"

text \<open>Lines 176 to 200: from the decoded payload to the value returned.\<close>

definition extract_points :: "json \<Rightarrow> points option result" where
  "extract_points laser_json =
     (case py_get laser_json ''lasers'' (JArr []) of
        Inl e \<Rightarrow> Raised e
      | Inr (JArr laser_beams) \<Rightarrow>
          if laser_beams = [] then Returned None
          else
            (case filter_beams LASER_RANGE_MIN LASER_RANGE_MAX laser_beams of
               Inl e \<Rightarrow> Raised e
             | Inr valid_beams \<Rightarrow>
                 if valid_beams = [] then Returned None else Returned (Some valid_beams))
      | Inr _ \<Rightarrow> Returned None)"

section \<open>agv_laser_get.py: get_laser_from_agv\<close>

text \<open>Lines 121 to 200, once the socket is connected.\<close>

definition laser_exchange :: "extern \<Rightarrow> sock \<Rightarrow> world \<Rightarrow> points option result \<times> world" where
  "laser_exchange x sock w =
     (if packMsg x 1 (robot_status_laser_req x) (JObj [(''step'', JNum (Finite (of_int LASER_STEP)))]) = []
      then (Returned None, w)
      else
        (case sock_send sock
                (packMsg x 1 (robot_status_laser_req x) (JObj [(''step'', JNum (Finite (of_int LASER_STEP)))])) w of
           (Inl e, w1) \<Rightarrow> (Raised e, w1)
         | (Inr _, w1) \<Rightarrow>
             (case sock_recv sock 16 w1 of
                (Inl e, w2) \<Rightarrow> (Raised e, w2)
              | (Inr header, w2) \<Rightarrow>
                  if length header \<noteq> 16 then (Returned None, w2)
                  else
                    (case unpackHead x header of
                       Inl e \<Rightarrow> (if e = ValueError then Returned None else Raised e, w2)
                     | Inr (json_data_len, resp_type) \<Rightarrow>
                         if json_data_len > MAX_DATA_LEN then (Returned None, w2)
                         else if json_data_len < 0 then (Returned None, w2)
                         else if resp_type \<noteq> ROBOT_STATUS_LASER_RESP then (Returned None, w2)
                         else
                           (case receive_full_data sock json_data_len w2 of
                              (Raised e, w3) \<Rightarrow> (Raised e, w3)
                            | (Returned None, w3) \<Rightarrow> (Returned None, w3)
                            | (Returned (Some resp_data), w3) \<Rightarrow>
                                if resp_data = [] then (Returned None, w3)
                                else
                                  (case json_loads x resp_data of
                                     Inl e \<Rightarrow>
                                       (if e = JSONDecodeError then Returned None else Raised e, w3)
                                   | Inr laser_json \<Rightarrow> (extract_points laser_json, w3)))))))"

text \<open>The local variable \<open>sock\<close> when the \<open>finally\<close> block runs.\<close>

datatype sock_var = Unbound | Bound "sock option"

definition laser_try :: "extern \<Rightarrow> world \<Rightarrow> points option result \<times> sock_var \<times> world" where
  "laser_try x w =
     (if \<not> validate_configuration \<or> \<not> validate_laser_params then (Returned None, Unbound, w)
      else
        (case connect_to_agv w of
           (None, w1) \<Rightarrow> (Returned None, Bound None, w1)
         | (Some sock, w1) \<Rightarrow>
             (case laser_exchange x sock w1 of (r, w2) \<Rightarrow> (r, Bound (Some sock), w2))))"

text \<open>
  The whole function: \<open>except Exception\<close> turns an exception of the \<open>try\<close> block into
  \<open>None\<close>; the \<open>finally\<close> block calls \<open>sock.close()\<close> on whatever \<open>sock\<close> is.
\<close>

definition get_laser_from_agv :: "extern \<Rightarrow> world \<Rightarrow> points option result \<times> world" where
  "get_laser_from_agv x w =
     (case laser_try x w of
        (r, Unbound, w1) \<Rightarrow> (Raised UnboundLocalError, w1)
      | (r, Bound None, w1) \<Rightarrow> (Raised AttributeError, w1)
      | (r, Bound (Some sock), w1) \<Rightarrow>
          (case r of Raised e \<Rightarrow> Returned None | Returned v \<Rightarrow> Returned v, sock_close sock w1))"

section \<open>Classifying what the network does during one attempt\<close>

text \<open>
  The outcomes one pass through the \<open>try\<close> block of \<open>send_control_command\<close> consumes,
  classified on the side of the network. A header announces a body read when it is 16
  bytes long and declares a length between 1 and 10 MiB.
\<close>

definition body_expected :: "extern \<Rightarrow> bytes \<Rightarrow> bool" where
  "body_expected x h =
     (length (take 16 h) = 16 \<and>
      (case unpackHead x (take 16 h) of
         Inl e \<Rightarrow> False
       | Inr (n, c) \<Rightarrow> 0 < n \<and> n \<le> 10 * 1024 * 1024))"

datatype failure = KShortHeader | KTimeout | KSocketError

text \<open>
  Transport failures: a timeout or socket error during the send, the header read or
  the body read, and a header read that returns fewer than 16 bytes.
\<close>

fun fail_kind :: "extern \<Rightarrow> outcome list \<Rightarrow> failure option" where
  "fail_kind x [TimedOut] = Some KTimeout"
| "fail_kind x [SockErr] = Some KSocketError"
| "fail_kind x [Data d, TimedOut] = Some KTimeout"
| "fail_kind x [Data d, SockErr] = Some KSocketError"
| "fail_kind x [Data d, Data h] = (if length (take 16 h) \<noteq> 16 then Some KShortHeader else None)"
| "fail_kind x [Data d, Data h, TimedOut] = (if body_expected x h then Some KTimeout else None)"
| "fail_kind x [Data d, Data h, SockErr] = (if body_expected x h then Some KSocketError else None)"
| "fail_kind x _ = None"





text \<open>The number of 0.5 s pauses in a trace.\<close>

definition pauses :: "action list \<Rightarrow> nat" where
  "pauses tr = length (filter (\<lambda>a. a = ASleep (1 / 2)) tr)"

text \<open>A 16-byte header that declares more than 10 MiB.\<close>

definition oversize_header :: "extern \<Rightarrow> bytes \<Rightarrow> bool" where
  "oversize_header x h =
     (length (take 16 h) = 16 \<and>
      (case unpackHead x (take 16 h) of
         Inl e \<Rightarrow> False
       | Inr (n, c) \<Rightarrow> n > 10 * 1024 * 1024))"

fun oversize_block :: "extern \<Rightarrow> outcome list \<Rightarrow> bool" where
  "oversize_block x [Data d, Data h] = oversize_header x h"
| "oversize_block x _ = False"

text \<open>Counting calls in a trace.\<close>

fun is_recv :: "action \<Rightarrow> bool" where
  "is_recv (ARecv _ _) = True"
| "is_recv _ = False"

definition recvs :: "action list \<Rightarrow> nat" where
  "recvs tr = length (filter is_recv tr)"

text \<open>
  The \<open>recv\<close> calls \<open>receive_full_data\<close> makes while the network delivers the given
  chunks one after the other: each asks for the bytes still missing, at most 8192.
\<close>

fun chunk_reads :: "sock \<Rightarrow> int \<Rightarrow> bytes list \<Rightarrow> action list" where
  "chunk_reads s remaining [] = []"
| "chunk_reads s remaining (c # cs) =
     ARecv s (min remaining 8192) # chunk_reads s (remaining - int (length c)) cs"

text \<open>Actions of the exchange itself: send, set the timeout, receive.\<close>

fun is_io :: "action \<Rightarrow> bool" where
  "is_io (ASend _ _) = True"
| "is_io (ASetTimeout _ _) = True"
| "is_io (ARecv _ _) = True"
| "is_io _ = False"

section \<open>The filter in the words of the specification\<close>

text \<open>
  The beams of a sensor payload in source order: the items of the \<open>beams\<close> list of
  each group.
\<close>

definition group_beams :: "json \<Rightarrow> json list" where
  "group_beams g =
     (case g of
        JObj kvs \<Rightarrow> (case map_of kvs ''beams'' of Some (JArr bs) \<Rightarrow> bs | _ \<Rightarrow> [])
      | _ \<Rightarrow> [])"

definition all_beams :: "json list \<Rightarrow> json list" where
  "all_beams lasers = concat (map group_beams lasers)"

text \<open>
  A beam is included only if it carries both an angle and a distance field, its validity
  flag is true, and the distance lies between the bounds.
\<close>

definition spec_point :: "rat \<Rightarrow> rat \<Rightarrow> json \<Rightarrow> (json \<times> json) option" where
  "spec_point range_min range_max beam =
     (case beam of
        JObj kvs \<Rightarrow>
          (case (map_of kvs ''angle'', map_of kvs ''dist'', map_of kvs ''valid'') of
             (Some a, Some (JNum d), Some (JBool True)) \<Rightarrow>
               if num_le (Finite range_min) d \<and> num_le d (Finite range_max)
               then Some (a, JNum d) else None
           | _ \<Rightarrow> None)
      | _ \<Rightarrow> None)"

definition spec_filter :: "rat \<Rightarrow> rat \<Rightarrow> json list \<Rightarrow> points" where
  "spec_filter range_min range_max beams = List.map_filter (spec_point range_min range_max) beams"

text \<open>
  A payload shaped as the interface describes it: every group is an object whose
  \<open>beams\<close>, when present, is a list of objects; a \<open>dist\<close> field is a number and a
  \<open>valid\<close> field a boolean.
\<close>

definition wf_beam :: "json \<Rightarrow> bool" where
  "wf_beam beam =
     (case beam of
        JObj kvs \<Rightarrow>
          (case map_of kvs ''dist'' of None \<Rightarrow> True | Some (JNum d) \<Rightarrow> True | Some _ \<Rightarrow> False)
          \<and> (case map_of kvs ''valid'' of None \<Rightarrow> True | Some (JBool b) \<Rightarrow> True | Some _ \<Rightarrow> False)
      | _ \<Rightarrow> False)"

definition wf_group :: "json \<Rightarrow> bool" where
  "wf_group g =
     (case g of
        JObj kvs \<Rightarrow>
          (case map_of kvs ''beams'' of
             None \<Rightarrow> True
           | Some (JArr bs) \<Rightarrow> list_all wf_beam bs
           | Some _ \<Rightarrow> False)
      | _ \<Rightarrow> False)"

text \<open>
  A decoded payload without usable beams: the \<open>lasers\<close> entry is absent, is not a
  list, is empty, or the filter keeps nothing.
\<close>

definition no_valid_data :: "json \<Rightarrow> bool" where
  "no_valid_data laser_json =
     (case laser_json of
        JObj kvs \<Rightarrow>
          (case map_of kvs ''lasers'' of
             None \<Rightarrow> True
           | Some (JArr laser_beams) \<Rightarrow>
               laser_beams = [] \<or> filter_beams LASER_RANGE_MIN LASER_RANGE_MAX laser_beams = Inr []
           | Some _ \<Rightarrow> True)
      | _ \<Rightarrow> False)"

section \<open>A concrete stand-in for the external modules\<close>

text \<open>
  The general theorems below hold for every value of the external parameters. To run the
  model on concrete inputs one value is fixed here. Its header layout is an assumption
  (the vendor layout is not part of the repository): the length of the data area in
  bytes 4 to 7 and the second field in bytes 8 and 9, big-endian. Its decoder is a table
  of the bodies that occur below, each with the value \<open>json.loads\<close> gives for it; the
  API numbers are those of the vendor protocol (1009 is named in \<open>agv_laser_get.py\<close>).
\<close>

definition be_int :: "bytes \<Rightarrow> int" where
  "be_int bs = foldl (\<lambda>a c. a * 256 + of_char c) 0 bs"

definition demo_unpackHead :: "bytes \<Rightarrow> exn + int \<times> int" where
  "demo_unpackHead h =
     (if length h \<noteq> 16 then Inl ValueError
      else Inr (be_int (take 4 (drop 4 h)), be_int (take 2 (drop 8 h))))"

definition demo_packMsg :: "int \<Rightarrow> int \<Rightarrow> json \<Rightarrow> bytes" where
  "demo_packMsg req api params =
     [CHR 0x5A, CHR 0x01, char_of (req div 256), char_of req,
      CHR 0x00, CHR 0x00, CHR 0x00, CHR 0x00,
      char_of (api div 256), char_of api,
      CHR 0x00, CHR 0x00, CHR 0x00, CHR 0x00, CHR 0x00, CHR 0x00]"

definition example_beams :: "json list" where
  "example_beams =
     [JObj [(''angle'', JNum (Finite 0)), (''dist'', JNum (Finite 1)), (''valid'', JBool True)],
      JObj [(''angle'', JNum (Finite (3602879701896397 / 36028797018963968))),
            (''dist'', JNum (Finite 30)), (''valid'', JBool True)],
      JObj [(''angle'', JNum (Finite (3602879701896397 / 18014398509481984))),
            (''dist'', JNum (Finite 2)), (''valid'', JBool False)]]"

definition demo_json_loads :: "bytes \<Rightarrow> exn + json" where
  \<open>demo_json_loads b =
     (if b = ''{"ret_code":0}'' then Inr (JObj [(''ret_code'', JNum (Finite 0))])
      else if b = ''{"ret_code":1,"err_msg":"busy"}'' then
        Inr (JObj [(''ret_code'', JNum (Finite 1)), (''err_msg'', JStr ''busy'')])
      else if b = ''{"status":"ok"}'' then Inr (JObj [(''status'', JStr ''ok'')])
      else if b = ''{"lasers":[]}'' then Inr (JObj [(''lasers'', JArr [])])
      else if b = ''{"lasers":[{"beams":[{"angle":0,"dist":30.0,"valid":true}]}]}'' then
        Inr (JObj [(''lasers'', JArr [JObj [(''beams'',
               JArr [JObj [(''angle'', JNum (Finite 0)), (''dist'', JNum (Finite 30)),
                           (''valid'', JBool True)]])]])])
      else Inl JSONDecodeError)\<close>

definition demo :: extern where
  "demo =
     \<lparr>packMsg = demo_packMsg, unpackHead = demo_unpackHead, json_loads = demo_json_loads,
      robot_control_motion_req = 2010, robot_control_stop_req = 2000,
      robot_status_laser_req = 1009\<rparr>"

text \<open>
  The world before anything has happened, with a given script, and the world in which
  socket 0 has already been created and connected (the global \<open>so\<close> of
  \<open>agv_control.py\<close>).
\<close>

definition start :: "outcome list \<Rightarrow> world" where
  "start sc = \<lparr>script = sc, trace = [], next_sock = 0\<rparr>"

definition connected :: "outcome list \<Rightarrow> world" where
  "connected sc = \<lparr>script = sc, trace = [], next_sock = 1\<rparr>"


definition header14 :: bytes where
  "header14 = [CHR 0x5A, CHR 0x01, CHR 0x00, CHR 0x01, CHR 0x00, CHR 0x00, CHR 0x00, CHR 0x0E,
               CHR 0x2E, CHR 0xE0, CHR 0x00, CHR 0x00, CHR 0x00, CHR 0x00, CHR 0x00, CHR 0x00]"

definition header15 :: bytes where
  "header15 = [CHR 0x5A, CHR 0x01, CHR 0x00, CHR 0x01, CHR 0x00, CHR 0x00, CHR 0x00, CHR 0x0F,
               CHR 0x2E, CHR 0xE0, CHR 0x00, CHR 0x00, CHR 0x00, CHR 0x00, CHR 0x00, CHR 0x00]"

definition header_11MiB :: bytes where
  "header_11MiB = [CHR 0x5A, CHR 0x01, CHR 0x00, CHR 0x01, CHR 0x00, CHR 0xB0, CHR 0x00, CHR 0x00,
                   CHR 0x2E, CHR 0xE0, CHR 0x00, CHR 0x00, CHR 0x00, CHR 0x00, CHR 0x00, CHR 0x00]"

definition laser_header61 :: bytes where
  "laser_header61 = [CHR 0x5A, CHR 0x01, CHR 0x00, CHR 0x01, CHR 0x00, CHR 0x00, CHR 0x00, CHR 0x3D,
                     CHR 0x2B, CHR 0x01, CHR 0x00, CHR 0x00, CHR 0x00, CHR 0x00, CHR 0x00, CHR 0x00]"

definition laser_header13 :: bytes where
  "laser_header13 = [CHR 0x5A, CHR 0x01, CHR 0x00, CHR 0x01, CHR 0x00, CHR 0x00, CHR 0x00, CHR 0x0D,
                     CHR 0x2B, CHR 0x01, CHR 0x00, CHR 0x00, CHR 0x00, CHR 0x00, CHR 0x00, CHR 0x00]"

section \<open>Auxiliary facts about the socket model and the retry loop\<close>

lemma next_outcome_Cons [simp]:
  "next_outcome \<lparr>script = oc # rest, trace = tr, next_sock = k\<rparr> = (oc, \<lparr>script = rest, trace = tr, next_sock = k\<rparr>)"
  by (simp add: next_outcome_def)

lemma next_outcome_Nil [simp]:
  "next_outcome \<lparr>script = [], trace = tr, next_sock = k\<rparr> = (TimedOut, \<lparr>script = [], trace = tr, next_sock = k\<rparr>)"
  by (simp add: next_outcome_def)

lemma record_action_simp [simp]:
  "record_action a \<lparr>script = sc, trace = tr, next_sock = k\<rparr> = \<lparr>script = sc, trace = tr @ [a], next_sock = k\<rparr>"
  by (simp add: record_action_def)

lemma socket_new_simp [simp]:
  "socket_new \<lparr>script = sc, trace = tr, next_sock = k\<rparr> = (k, \<lparr>script = sc, trace = tr @ [ACreate k], next_sock = Suc k\<rparr>)"
  by (simp add: socket_new_def)

lemmas sock_ops = sock_send_def sock_recv_def sock_connect_def sock_close_def
  sock_settimeout_def sock_keepalive_def time_sleep_def

lemma sends_append [simp]: "sends (a @ b) = sends a + sends b"
  by (simp add: sends_def)

lemma sends_Nil [simp]: "sends [] = 0"
  by (simp add: sends_def)

lemma sends_Cons [simp]: "sends (a # tr) = (if is_send a then 1 else 0) + sends tr"
  by (simp add: sends_def)

lemma try_exchange_fail_kind:
  assumes "fail_kind x blk = Some k"
  shows "\<exists>acts. list_all is_io acts \<and> sends acts = 1 \<and>
     try_exchange x so msg \<lparr>script = blk @ sc, trace = tr, next_sock = n\<rparr> =
       (case k of KShortHeader \<Rightarrow> Continue | KTimeout \<Rightarrow> Threw SocketTimeout | KSocketError \<Rightarrow> Threw SocketError,
        \<lparr>script = sc, trace = tr @ acts, next_sock = n\<rparr>)"
  using assms
  apply (induction x blk rule: fail_kind.induct)
  apply (auto simp: try_exchange_def sock_ops recv_resp_json_def body_expected_def split: if_splits sum.splits prod.splits)
  done

lemma try_exchange_oversize:
  assumes "oversize_block x blk"
  shows "try_exchange x so msg \<lparr>script = blk @ sc, trace = tr, next_sock = n\<rparr> =
       (Continue, \<lparr>script = sc, trace = tr @ [ASend so msg, ASetTimeout so 5, ARecv so 16], next_sock = n\<rparr>)"
  using assms
  apply (induction x blk rule: oversize_block.induct)
  apply (auto simp: try_exchange_def sock_ops oversize_header_def
      split: if_splits sum.splits prod.splits)
  done

lemma try_exchange_sends:
  "try_exchange x so msg w = (r, w1) \<Longrightarrow> sends (trace w1) = Suc (sends (trace w))"
  apply (auto simp: try_exchange_def sock_ops recv_resp_json_def next_outcome_def record_action_def
      split: if_splits sum.splits prod.splits list.splits outcome.splits)
  done

lemma pause_sends [simp]: "sends (trace (pause i retry w)) = sends (trace w)"
  by (simp add: pause_def time_sleep_def record_action_def)

lemma send_loop_sends_le:
  "send_loop x retry msg is so w = (r, so', w1) \<Longrightarrow> sends (trace w1) \<le> sends (trace w) + length is"
proof (induction "is" arbitrary: so w)
  case Nil
  then show ?case by simp
next
  case (Cons i rest)
  obtain a wa where ex: "try_exchange x so msg w = (a, wa)" by (cases "try_exchange x so msg w")
  have s1: "sends (trace wa) = Suc (sends (trace w))" using try_exchange_sends[OF ex] .
  show ?case
  proof (cases a)
    case ReturnTrue
    with Cons.prems ex s1 show ?thesis by auto
  next
    case Continue
    with Cons.prems ex have "send_loop x retry msg rest so wa = (r, so', w1)" by simp
    from Cons.IH[OF this] s1 show ?thesis by simp
  next
    case FellThrough
    with Cons.prems ex have "send_loop x retry msg rest so (pause i retry wa) = (r, so', w1)" by simp
    from Cons.IH[OF this] s1 show ?thesis by simp
  next
    case (Threw e)
    show ?thesis
    proof (cases "e = SocketError \<and> i < retry")
      case False
      with Threw Cons.prems ex have "send_loop x retry msg rest so (pause i retry wa) = (r, so', w1)"
        by (auto split: if_splits)
      from Cons.IH[OF this] s1 show ?thesis by simp
    next
      case True
      obtain s2 w2 where sn: "socket_new (sock_close so wa) = (s2, w2)" by (cases "socket_new (sock_close so wa)")
      have t2: "sends (trace w2) = sends (trace wa)"
        using sn by (auto simp: socket_new_def sock_close_def record_action_def)
      obtain c w3 where sc: "sock_connect s2 w2 = (c, w3)" by (cases "sock_connect s2 w2")
      have t3: "sends (trace w3) = sends (trace w2)"
        using sc by (auto simp: sock_connect_def next_outcome_def record_action_def split: list.splits outcome.splits)
      show ?thesis
      proof (cases c)
        case (Inl e')
        with True Threw Cons.prems ex sn sc have "w1 = w3" by simp
        with t2 t3 s1 show ?thesis by simp
      next
        case (Inr u)
        with True Threw Cons.prems ex sn sc have "send_loop x retry msg rest s2 (pause i retry w3) = (r, so', w1)" by simp
        from Cons.IH[OF this] s1 t2 t3 show ?thesis by simp
      qed
    qed
  qed
qed

lemma pause_explicit:
  "pause i retry \<lparr>script = sc, trace = tr, next_sock = n\<rparr> =
     \<lparr>script = sc, trace = tr @ (if i < retry then [ASleep (1 / 2)] else []), next_sock = n\<rparr>"
  by (simp add: pause_def time_sleep_def)


lemma pauses_append [simp]: "pauses (a @ b) = pauses a + pauses b"
  by (simp add: pauses_def)




lemma send_loop_quiet:
  assumes step: "\<And>b so sc tr n. P b \<Longrightarrow>
      \<exists>acts. list_all is_io acts \<and> sends acts = 1 \<and>
        try_exchange x so msg \<lparr>script = b @ sc, trace = tr, next_sock = n\<rparr> =
          (a, \<lparr>script = sc, trace = tr @ acts, next_sock = n\<rparr>)"
    and a: "a = Continue \<or> a = FellThrough \<or> a = Threw SocketTimeout"
    and len: "length blocks = length is"
    and all: "\<forall>b\<in>set blocks. P b"
  shows "\<exists>tr'. send_loop x retry msg is so \<lparr>script = concat blocks @ sc, trace = tr, next_sock = n\<rparr> =
           (Returned False, so, \<lparr>script = sc, trace = tr @ tr', next_sock = n\<rparr>)
         \<and> sends tr' = length is \<and> (\<forall>act\<in>set tr'. is_io act \<or> act = ASleep (1 / 2))"
  using len all
proof (induction blocks arbitrary: "is" tr)
  case Nil
  then show ?case by simp
next
  case (Cons b blocks)
  then obtain i rest where is_eq: "is = i # rest" and len': "length blocks = length rest"
    by (cases "is") auto
  from Cons.prems have Pb: "P b" and all': "\<forall>b\<in>set blocks. P b" by auto
  from step[OF Pb, of so "concat blocks @ sc" tr n]
  obtain acts where io: "list_all is_io acts" and s1: "sends acts = 1"
    and ex: "try_exchange x so msg \<lparr>script = b @ concat blocks @ sc, trace = tr, next_sock = n\<rparr> =
          (a, \<lparr>script = concat blocks @ sc, trace = tr @ acts, next_sock = n\<rparr>)"
    by blast
  define sl where "sl = (if a = Continue then [] else if i < retry then [ASleep (1 / 2)] else [])"
  have nxt: "send_loop x retry msg is so \<lparr>script = concat (b # blocks) @ sc, trace = tr, next_sock = n\<rparr> =
      send_loop x retry msg rest so \<lparr>script = concat blocks @ sc, trace = tr @ acts @ sl, next_sock = n\<rparr>"
    using a ex by (auto simp: is_eq sl_def pause_explicit)
  from Cons.IH[OF len' all', of "tr @ acts @ sl"]
  obtain tr' where r: "send_loop x retry msg rest so \<lparr>script = concat blocks @ sc, trace = tr @ acts @ sl, next_sock = n\<rparr> =
           (Returned False, so, \<lparr>script = sc, trace = (tr @ acts @ sl) @ tr', next_sock = n\<rparr>)"
    and c: "sends tr' = length rest" and o: "\<forall>act\<in>set tr'. is_io act \<or> act = ASleep (1 / 2)"
    by blast
  have "sends sl = 0" by (simp add: sl_def)
  moreover have "\<forall>act\<in>set sl. act = ASleep (1 / 2)" by (simp add: sl_def)
  ultimately show ?case
    using nxt r c o io s1
    by (intro exI[of _ "acts @ sl @ tr'"]) (auto simp: is_eq list_all_iff)
qed

lemma send_loop_oversize:
  assumes len: "length blocks = length is"
    and all: "\<forall>b\<in>set blocks. oversize_block x b"
  shows "send_loop x retry msg is so \<lparr>script = concat blocks @ sc, trace = tr, next_sock = n\<rparr> =
           (Returned False, so,
            \<lparr>script = sc,
             trace = tr @ concat (replicate (length is) [ASend so msg, ASetTimeout so 5, ARecv so 16]),
             next_sock = n\<rparr>)"
  using len all
proof (induction blocks arbitrary: "is" tr)
  case Nil
  then show ?case by simp
next
  case (Cons b blocks)
  then obtain i rest where is_eq: "is = i # rest" and len': "length blocks = length rest"
    by (cases "is") auto
  from Cons.prems have Pb: "oversize_block x b" and all': "\<forall>b\<in>set blocks. oversize_block x b" by auto
  show ?case
    using try_exchange_oversize[OF Pb, of so msg "concat blocks @ sc" tr n] Cons.IH[OF len' all']
    by (simp add: is_eq)
qed

lemma validations_pass [simp]: "validate_configuration" "validate_laser_params"
  by (simp_all add: validate_configuration_def validate_laser_params_def AGV_IP_def
      API_PORT_STATE_def LASER_STEP_def LASER_RANGE_MIN_def LASER_RANGE_MAX_def ROS_PUB_FREQ_def)

lemma connect_to_agv_first:
  "connect_to_agv \<lparr>script = Data c # sc, trace = tr, next_sock = n\<rparr> =
     (Some n, \<lparr>script = sc, trace = tr @ [ACreate n, ASetTimeout n 8, AKeepAlive n, AConnect n],
               next_sock = Suc n\<rparr>)"
  by (simp add: connect_to_agv_def sock_ops TIMEOUT_def)

lemma send_control_command_sends_le:
  "sends (trace (snd (snd (send_control_command x so_var api_type params retry w))))
     \<le> sends (trace w) + nat (retry + 1)"
proof (cases so_var)
  case None
  then show ?thesis by (simp add: send_control_command_def)
next
  case (Some so)
  obtain r so' w1 where
    l: "send_loop x retry (packMsg x 1 api_type params) [0..retry] so w = (r, so', w1)"
    by (cases "send_loop x retry (packMsg x 1 api_type params) [0..retry] so w") auto
  from send_loop_sends_le[OF l] have "sends (trace w1) \<le> sends (trace w) + nat (retry + 1)"
    by simp
  with Some l show ?thesis by (simp add: send_control_command_def)
qed

text \<open>
  The loop of \<open>receive_full_data\<close> never overshoots: when it completes for a
  non-negative length, it has accumulated exactly the bytes that were missing.
\<close>

lemma receive_loop_length:
  "receive_full_data_loop s received remaining w = (Returned (Some b), w1) \<Longrightarrow> 0 \<le> remaining \<Longrightarrow>
     int (length b) = int (length received) + remaining"
proof (induction s received remaining w rule: receive_full_data_loop.induct)
  case (1 s received remaining w)
  show ?case
  proof (cases "remaining > 0")
    case False
    with "1.prems" show ?thesis by simp
  next
    case True
    obtain r wa where rc: "sock_recv s (min remaining 8192) w = (r, wa)"
      by (cases "sock_recv s (min remaining 8192) w")
    show ?thesis
    proof (cases r)
      case (Inl e)
      with True rc "1.prems" show ?thesis by simp
    next
      case (Inr chunk)
      have le: "int (length chunk) \<le> remaining"
        using rc Inr True
        by (auto simp: sock_recv_def next_outcome_def split: list.splits outcome.splits prod.splits)
      show ?thesis
      proof (cases "chunk = []")
        case True
        with \<open>remaining > 0\<close> rc Inr "1.prems" show ?thesis by simp
      next
        case False
        with True rc Inr "1.prems"
        have rec: "receive_full_data_loop s (received @ chunk) (remaining - int (length chunk)) wa
                     = (Returned (Some b), w1)"
          by simp
        from "1.IH"[OF True rc[symmetric] Inr False rec] le
        show ?thesis by simp
      qed
    qed
  qed
qed

lemma receive_loop_chunks:
  assumes "\<forall>c\<in>set chunks. c \<noteq> [] \<and> length c \<le> 8192"
    and "int (length (concat chunks)) = remaining"
  shows "receive_full_data_loop s received remaining
           \<lparr>script = map Data chunks @ sc, trace = tr, next_sock = n\<rparr> =
         (Returned (Some (received @ concat chunks)),
          \<lparr>script = sc, trace = tr @ chunk_reads s remaining chunks, next_sock = n\<rparr>)"
  using assms
proof (induction chunks arbitrary: received remaining tr)
  case Nil
  then show ?case by simp
next
  case (Cons c chunks)
  have ne: "c \<noteq> []" and small: "length c \<le> 8192" using Cons.prems by auto
  have lc: "0 < length c" using ne by simp
  have tot: "remaining = int (length c) + int (length (concat chunks))" using Cons.prems by auto
  have pos: "remaining > 0" using lc tot by linarith
  have "length c \<le> nat (min remaining 8192)" using small tot by linarith
  then have fit: "take (nat (min remaining 8192)) c = c" by simp
  have rem: "int (length (concat chunks)) = remaining - int (length c)" using tot by simp
  have all: "\<forall>c\<in>set chunks. c \<noteq> [] \<and> length c \<le> 8192" using Cons.prems by auto
  have step: "receive_full_data_loop s received remaining
           \<lparr>script = Data c # map Data chunks @ sc, trace = tr, next_sock = n\<rparr> =
          receive_full_data_loop s (received @ c) (remaining - int (length c))
           \<lparr>script = map Data chunks @ sc, trace = tr @ [ARecv s (min remaining 8192)], next_sock = n\<rparr>"
    using pos fit ne
    by (subst receive_full_data_loop.simps) (simp add: sock_recv_def)
  show ?case
    using Cons.IH[OF all rem, of "received @ c" "tr @ [ARecv s (min remaining 8192)]"]
    by (simp add: step del: receive_full_data_loop.simps)
qed

lemma receive_loop_closed:
  assumes "\<forall>c\<in>set chunks. c \<noteq> [] \<and> length c \<le> 8192"
    and "int (length (concat chunks)) < remaining"
  shows "receive_full_data_loop s received remaining
           \<lparr>script = map Data chunks @ Data [] # sc, trace = tr, next_sock = n\<rparr> =
         (Returned None,
          \<lparr>script = sc,
           trace = tr @ chunk_reads s remaining chunks
                      @ [ARecv s (min (remaining - int (length (concat chunks))) 8192)],
           next_sock = n\<rparr>)"
  using assms
proof (induction chunks arbitrary: received remaining tr)
  case Nil
  then show ?case
    by (subst receive_full_data_loop.simps) (simp add: sock_recv_def)
next
  case (Cons c chunks)
  have ne: "c \<noteq> []" and small: "length c \<le> 8192" using Cons.prems by auto
  have lc: "0 < length c" using ne by simp
  have tot: "int (length c) + int (length (concat chunks)) < remaining" using Cons.prems by auto
  have pos: "remaining > 0" using lc tot by linarith
  have "length c \<le> nat (min remaining 8192)" using small tot by linarith
  then have fit: "take (nat (min remaining 8192)) c = c" by simp
  have rem: "int (length (concat chunks)) < remaining - int (length c)" using tot by simp
  have all: "\<forall>c\<in>set chunks. c \<noteq> [] \<and> length c \<le> 8192" using Cons.prems by auto
  have step: "receive_full_data_loop s received remaining
           \<lparr>script = Data c # map Data chunks @ Data [] # sc, trace = tr, next_sock = n\<rparr> =
          receive_full_data_loop s (received @ c) (remaining - int (length c))
           \<lparr>script = map Data chunks @ Data [] # sc, trace = tr @ [ARecv s (min remaining 8192)], next_sock = n\<rparr>"
    using pos fit ne
    by (subst receive_full_data_loop.simps) (simp add: sock_recv_def)
  have arith: "remaining - int (length c) - int (length (concat chunks)) =
      remaining - (int (length c) + int (length (concat chunks)))" by simp
  show ?case
    using Cons.IH[OF all rem, of "received @ c" "tr @ [ARecv s (min remaining 8192)]"]
    by (simp add: step arith del: receive_full_data_loop.simps)
qed

lemma receive_full_data_zero: "receive_full_data s 0 w = (Returned (Some []), w)"
  by (simp add: receive_full_data_def)

lemma receive_full_data_exact:
  "receive_full_data s expected_len w = (Returned (Some b), w1) \<Longrightarrow> int (length b) = expected_len"
  by (auto simp: receive_full_data_def split: prod.splits result.splits option.splits if_splits)

lemma map_of_in_keys: "(k \<in> fst ` set kvs) = (map_of kvs k \<noteq> None)"
  by (simp add: map_of_eq_None_iff)

lemma keep_beam_wf:
  "wf_beam beam \<Longrightarrow> keep_beam range_min range_max beam = Inr (spec_point range_min range_max beam)"
  by (auto simp: wf_beam_def keep_beam_def spec_point_def py_in_def py_get_def py_getitem_def
      map_of_in_keys
      split: json.splits option.splits bool.splits)

lemma beams_loop_wf:
  "list_all wf_beam beams \<Longrightarrow>
     beams_loop range_min range_max valid_beams beams =
       Inr (valid_beams @ spec_filter range_min range_max beams)"
proof (induction beams arbitrary: valid_beams)
  case Nil
  then show ?case by (simp add: spec_filter_def List.map_filter_simps)
next
  case (Cons beam beams)
  then have wf: "wf_beam beam" and rest: "list_all wf_beam beams" by simp_all
  show ?case
    using Cons.IH[OF rest] keep_beam_wf[OF wf, of range_min range_max]
    by (cases "spec_point range_min range_max beam")
      (simp_all add: spec_filter_def List.map_filter_simps)
qed

lemma spec_filter_append:
  "spec_filter range_min range_max (xs @ ys) =
     spec_filter range_min range_max xs @ spec_filter range_min range_max ys"
  by (simp add: spec_filter_def List.map_filter_def)

lemma lasers_loop_wf:
  "list_all wf_group lasers \<Longrightarrow>
     lasers_loop range_min range_max valid_beams lasers =
       Inr (valid_beams @ spec_filter range_min range_max (all_beams lasers))"
proof (induction lasers arbitrary: valid_beams)
  case Nil
  then show ?case by (simp add: spec_filter_def all_beams_def List.map_filter_simps)
next
  case (Cons laser lasers)
  then have wf: "wf_group laser" and rest: "list_all wf_group lasers" by simp_all
  from wf obtain kvs where obj: "laser = JObj kvs"
    by (auto simp: wf_group_def split: json.splits)
  show ?case
  proof (cases "map_of kvs ''beams''")
    case None
    then show ?thesis
      using Cons.IH[OF rest] obj
      by (simp add: py_get_def py_iter_def all_beams_def group_beams_def)
  next
    case (Some bs)
    with wf obj obtain beams where bs: "bs = JArr beams" and wfb: "list_all wf_beam beams"
      by (auto simp: wf_group_def split: json.splits)
    show ?thesis
      using Cons.IH[OF rest] obj Some bs beams_loop_wf[OF wfb, of range_min range_max valid_beams]
      by (simp add: py_get_def py_iter_def all_beams_def group_beams_def spec_filter_append)
  qed
qed

lemma get_laser_decoded:
  assumes msg: "packMsg x 1 (robot_status_laser_req x) (JObj [(''step'', JNum (Finite (of_int LASER_STEP)))]) \<noteq> []"
    and h16: "length (take 16 h) = 16"
    and hd: "unpackHead x (take 16 h) = Inr (len, ROBOT_STATUS_LASER_RESP)"
    and le: "len \<le> MAX_DATA_LEN"
    and chunks: "\<forall>c\<in>set chunks. c \<noteq> [] \<and> length c \<le> 8192"
    and total: "int (length (concat chunks)) = len"
    and ne: "chunks \<noteq> []"
    and js: "json_loads x (concat chunks) = Inr laser_json"
  shows "get_laser_from_agv x
           \<lparr>script = Data c # Data d # Data h # map Data chunks @ sc, trace = tr, next_sock = n\<rparr> =
         (case extract_points laser_json of Raised e \<Rightarrow> Returned None | Returned v \<Rightarrow> Returned v,
          \<lparr>script = sc,
           trace = tr @ [ACreate n, ASetTimeout n 8, AKeepAlive n, AConnect n,
                     ASend n (packMsg x 1 (robot_status_laser_req x)
                                (JObj [(''step'', JNum (Finite (of_int LASER_STEP)))])),
                     ARecv n 16] @ chunk_reads n len chunks @ [AClose n],
           next_sock = Suc n\<rparr>)"
proof -
  define body where "body = concat chunks"
  have nonempty: "body \<noteq> []"
    using chunks ne by (cases chunks) (auto simp: body_def)
  have len0: "\<not> len < 0"
    using total by linarith
  have js': "json_loads x body = Inr laser_json"
    using js by (simp add: body_def)
  have rd: "receive_full_data n len
      \<lparr>script = map Data chunks @ sc,
       trace = tr @ [ACreate n, ASetTimeout n 8, AKeepAlive n, AConnect n,
                     ASend n (packMsg x 1 (robot_status_laser_req x)
                                (JObj [(''step'', JNum (Finite (of_int LASER_STEP)))])),
                     ARecv n 16],
       next_sock = Suc n\<rparr> =
     (Returned (Some body),
      \<lparr>script = sc,
       trace = (tr @ [ACreate n, ASetTimeout n 8, AKeepAlive n, AConnect n,
                     ASend n (packMsg x 1 (robot_status_laser_req x)
                                (JObj [(''step'', JNum (Finite (of_int LASER_STEP)))])),
                     ARecv n 16]) @ chunk_reads n len chunks,
       next_sock = Suc n\<rparr>)"
    using receive_loop_chunks[OF chunks total, of n "[]" sc _ "Suc n"] total
    by (simp add: receive_full_data_def body_def del: receive_full_data_loop.simps)
  show ?thesis
    using msg h16 hd le len0 nonempty js' rd
    by (simp add: get_laser_from_agv_def laser_try_def connect_to_agv_first laser_exchange_def
        sock_ops del: receive_full_data_loop.simps split: result.splits)
qed

lemma no_valid_data_extract:
  "no_valid_data laser_json \<Longrightarrow> extract_points laser_json = Returned None"
  by (auto simp: no_valid_data_def extract_points_def py_get_def
      split: json.splits option.splits)






section \<open>The retry bound\<close>

text \<open>
  Claim C4. If every attempt of \<open>send_control_command\<close> fails with a timeout (in the
  send, in the header read or in the body read), the function performs exactly
  \<open>retry + 1\<close> sends and then returns \<open>False\<close>. The model is a total function, so the
  call always returns; in any world whatsoever it performs at most \<open>retry + 1\<close> sends.
\<close>

theorem retry_bound_all_timeouts:
  assumes "0 \<le> retry"
    and "packMsg x 1 api_type params \<noteq> []"
    and "length blocks = nat (retry + 1)"
    and "\<forall>b\<in>set blocks. fail_kind x b = Some KTimeout"
  shows "(\<exists>tr'. send_control_command x (Some so) api_type params retry
               \<lparr>script = concat blocks @ sc, trace = tr, next_sock = n\<rparr> =
             (Returned False, Some so, \<lparr>script = sc, trace = tr @ tr', next_sock = n\<rparr>)
           \<and> int (sends tr') = retry + 1)
         \<and> (\<forall>so_var w. sends (trace (snd (snd (send_control_command x so_var api_type params retry w))))
               \<le> sends (trace w) + nat (retry + 1))"
proof
  have len: "length blocks = length [0..retry]"
    using assms(3) by simp
  have step: "\<And>b so sc tr n. fail_kind x b = Some KTimeout \<Longrightarrow>
      \<exists>acts. list_all is_io acts \<and> sends acts = 1 \<and>
        try_exchange x so (packMsg x 1 api_type params) \<lparr>script = b @ sc, trace = tr, next_sock = n\<rparr> =
          (Threw SocketTimeout, \<lparr>script = sc, trace = tr @ acts, next_sock = n\<rparr>)"
    using try_exchange_fail_kind by fastforce
  have "\<exists>tr'. send_loop x retry (packMsg x 1 api_type params) [0..retry] so
          \<lparr>script = concat blocks @ sc, trace = tr, next_sock = n\<rparr> =
        (Returned False, so, \<lparr>script = sc, trace = tr @ tr', next_sock = n\<rparr>)
      \<and> sends tr' = length [0..retry] \<and> (\<forall>act\<in>set tr'. is_io act \<or> act = ASleep (1 / 2))"
    by (rule send_loop_quiet[where P = "\<lambda>b. fail_kind x b = Some KTimeout"
          and a = "Threw SocketTimeout", OF step _ len assms(4)]) simp_all
  then obtain tr' where
    r: "send_loop x retry (packMsg x 1 api_type params) [0..retry] so
          \<lparr>script = concat blocks @ sc, trace = tr, next_sock = n\<rparr> =
        (Returned False, so, \<lparr>script = sc, trace = tr @ tr', next_sock = n\<rparr>)"
    and c: "sends tr' = length [0..retry]"
    by blast
  have "int (sends tr') = retry + 1"
    using c assms(1) by simp
  with r assms(2)
  show "\<exists>tr'. send_control_command x (Some so) api_type params retry
               \<lparr>script = concat blocks @ sc, trace = tr, next_sock = n\<rparr> =
             (Returned False, Some so, \<lparr>script = sc, trace = tr @ tr', next_sock = n\<rparr>)
           \<and> int (sends tr') = retry + 1"
    by (auto simp: send_control_command_def)
next
  show "\<forall>so_var w. sends (trace (snd (snd (send_control_command x so_var api_type params retry w))))
               \<le> sends (trace w) + nat (retry + 1)"
  proof (intro allI)
    fix so_var w
    show "sends (trace (snd (snd (send_control_command x so_var api_type params retry w))))
               \<le> sends (trace w) + nat (retry + 1)"
    proof (cases so_var)
      case None
      then show ?thesis by (simp add: send_control_command_def)
    next
      case (Some so)
      obtain r so' w1 where
        l: "send_loop x retry (packMsg x 1 api_type params) [0..retry] so w = (r, so', w1)"
        by (cases "send_loop x retry (packMsg x 1 api_type params) [0..retry] so w") auto
      from send_loop_sends_le[OF l] have "sends (trace w1) \<le> sends (trace w) + nat (retry + 1)"
        by simp
      with Some l show ?thesis by (simp add: send_control_command_def)
    qed
  qed
qed

theorem retry_bound_all_timeouts_witness:
  "(0::int) \<le> 1 \<and> packMsg demo 1 2000 (JObj []) \<noteq> []
   \<and> length [[TimedOut], [Data [], TimedOut]] = nat (1 + 1)
   \<and> fail_kind demo [TimedOut] = Some KTimeout
   \<and> fail_kind demo [Data [], TimedOut] = Some KTimeout
   \<and> (\<exists>tr'. send_control_command demo (Some 0) 2000 (JObj []) 1
               (connected [TimedOut, Data [], TimedOut]) =
             (Returned False, Some 0, \<lparr>script = [], trace = tr', next_sock = 1\<rparr>)
           \<and> int (sends tr') = 1 + 1)"
  using retry_bound_all_timeouts[where retry = 1 and x = demo and api_type = 2000
      and params = "JObj []" and blocks = "[[TimedOut], [Data [], TimedOut]]"
      and so = 0 and sc = "[]" and tr = "[]" and n = 1]
  by (simp add: demo_def demo_packMsg_def connected_def)

section \<open>Rejected commands\<close>




section \<open>The size limit\<close>

text \<open>
  Claim C2 as stated: a header declaring more than 10 MiB fails the call at once, without
  a body read and without a retry. The last part fails for \<open>send_control_command\<close>:
  with \<open>retry = 1\<close> the request is sent again straight after the oversize header,
  and the call returns \<open>True\<close> when the second response is accepted.
\<close>

theorem oversize_header_is_retried:
  \<open>send_control_command demo (Some 0) 2000 (JObj []) 1
     (connected [Data [], Data header_11MiB, Data [], Data header14, Data ''{"ret_code":0}'']) =
   (Returned True, Some 0,
    \<lparr>script = [],
     trace = [ASend 0 (packMsg demo 1 2000 (JObj [])), ASetTimeout 0 5, ARecv 0 16,
              ASend 0 (packMsg demo 1 2000 (JObj [])), ASetTimeout 0 5, ARecv 0 16, ARecv 0 14],
     next_sock = 1\<rparr>)\<close>
  by code_simp

text \<open>
  Claim C2, amended. After a header declaring more than 10 MiB no body read is made for
  that frame. \<open>get_laser_from_agv\<close> then closes the socket and returns \<open>None\<close>.
  \<open>send_control_command\<close> abandons the attempt and goes on to the next one without
  pausing; when every header is oversize it returns \<open>False\<close> after \<open>retry + 1\<close>
  sends, each followed by the header read only.
\<close>

theorem oversize_header_no_body_read:
  assumes "packMsg x 1 api_type params \<noteq> []"
    and "length blocks = nat (retry + 1)"
    and "\<forall>b\<in>set blocks. oversize_block x b"
    and "packMsg x 1 (robot_status_laser_req x) (JObj [(''step'', JNum (Finite (of_int LASER_STEP)))]) \<noteq> []"
    and "oversize_header x h"
  shows "send_control_command x (Some so) api_type params retry
             \<lparr>script = concat blocks @ sc, trace = tr, next_sock = n\<rparr> =
           (Returned False, Some so,
            \<lparr>script = sc,
             trace = tr @ concat (replicate (nat (retry + 1))
                       [ASend so (packMsg x 1 api_type params), ASetTimeout so 5, ARecv so 16]),
             next_sock = n\<rparr>)
         \<and> get_laser_from_agv x \<lparr>script = Data c # Data d # Data h # sc, trace = tr, next_sock = n\<rparr> =
           (Returned None,
            \<lparr>script = sc,
             trace = tr @ [ACreate n, ASetTimeout n 8, AKeepAlive n, AConnect n,
                       ASend n (packMsg x 1 (robot_status_laser_req x)
                                  (JObj [(''step'', JNum (Finite (of_int LASER_STEP)))])),
                       ARecv n 16, AClose n],
             next_sock = Suc n\<rparr>)"
proof
  have len: "length blocks = length [0..retry]"
    using assms(2) by simp
  show "send_control_command x (Some so) api_type params retry
             \<lparr>script = concat blocks @ sc, trace = tr, next_sock = n\<rparr> =
           (Returned False, Some so,
            \<lparr>script = sc,
             trace = tr @ concat (replicate (nat (retry + 1))
                       [ASend so (packMsg x 1 api_type params), ASetTimeout so 5, ARecv so 16]),
             next_sock = n\<rparr>)"
    using send_loop_oversize[OF len assms(3), of retry "packMsg x 1 api_type params" so sc tr n] assms(1)
    by (simp add: send_control_command_def)
next
  show "get_laser_from_agv x \<lparr>script = Data c # Data d # Data h # sc, trace = tr, next_sock = n\<rparr> =
           (Returned None,
            \<lparr>script = sc,
             trace = tr @ [ACreate n, ASetTimeout n 8, AKeepAlive n, AConnect n,
                       ASend n (packMsg x 1 (robot_status_laser_req x)
                                  (JObj [(''step'', JNum (Finite (of_int LASER_STEP)))])),
                       ARecv n 16, AClose n],
             next_sock = Suc n\<rparr>)"
    using assms(4,5)
    by (auto simp: get_laser_from_agv_def laser_try_def connect_to_agv_first laser_exchange_def
        sock_ops oversize_header_def MAX_DATA_LEN_def split: sum.splits prod.splits)
qed

theorem oversize_header_no_body_read_witness:
  "packMsg demo 1 2000 (JObj []) \<noteq> []
   \<and> length [[Data [], Data header_11MiB], [Data [], Data header_11MiB]] = nat (1 + 1)
   \<and> oversize_block demo [Data [], Data header_11MiB]
   \<and> packMsg demo 1 (robot_status_laser_req demo) (JObj [(''step'', JNum (Finite (of_int LASER_STEP)))]) \<noteq> []
   \<and> oversize_header demo header_11MiB
   \<and> send_control_command demo (Some 0) 2000 (JObj []) 1
        (connected [Data [], Data header_11MiB, Data [], Data header_11MiB]) =
       (Returned False, Some 0,
        \<lparr>script = [],
         trace = [ASend 0 (packMsg demo 1 2000 (JObj [])), ASetTimeout 0 5, ARecv 0 16,
                  ASend 0 (packMsg demo 1 2000 (JObj [])), ASetTimeout 0 5, ARecv 0 16],
         next_sock = 1\<rparr>)
   \<and> get_laser_from_agv demo (connected [Data [], Data [], Data header_11MiB]) =
       (Returned None,
        \<lparr>script = [],
         trace = [ACreate 1, ASetTimeout 1 8, AKeepAlive 1, AConnect 1,
                  ASend 1 (packMsg demo 1 (robot_status_laser_req demo)
                             (JObj [(''step'', JNum (Finite (of_int LASER_STEP)))])),
                  ARecv 1 16, AClose 1],
         next_sock = 2\<rparr>)"
proof -
  have o: "oversize_header demo header_11MiB"
    by code_simp
  have m: "packMsg demo 1 2000 (JObj []) \<noteq> []"
    "packMsg demo 1 (robot_status_laser_req demo) (JObj [(''step'', JNum (Finite (of_int LASER_STEP)))]) \<noteq> []"
    by (simp_all add: demo_def demo_packMsg_def)
  show ?thesis
    using oversize_header_no_body_read[where x = demo and api_type = 2000 and params = "JObj []"
      and retry = 1 and blocks = "[[Data [], Data header_11MiB], [Data [], Data header_11MiB]]"
      and h = header_11MiB and so = 0 and sc = "[]" and tr = "[]" and n = 1 and c = "[]" and d = "[]"]
      o m
    by (simp add: connected_def eval_nat_numeral)
qed

section \<open>Transport failures\<close>

text \<open>
  Claim C3 as stated: after every transport failure the client closes the connection and
  reconnects before it retries. It fails for a timeout: with \<open>retry = 1\<close> and a header
  read that times out, the second attempt is sent on the same socket after the pause;
  the trace holds no close, no new socket and no connect.
\<close>

theorem timeout_retried_without_reconnect:
  "send_control_command demo (Some 0) 2000 (JObj []) 1
     (connected [Data [], TimedOut, Data [], TimedOut]) =
   (Returned False, Some 0,
    \<lparr>script = [],
     trace = [ASend 0 (packMsg demo 1 2000 (JObj [])), ASetTimeout 0 5, ARecv 0 16,
              ASleep (1 / 2),
              ASend 0 (packMsg demo 1 2000 (JObj [])), ASetTimeout 0 5, ARecv 0 16],
     next_sock = 1\<rparr>)"
  by code_simp

text \<open>
  Claim C3, amended. What the retry loop does after an attempt that failed in transport,
  with \<open>acts\<close> the calls of that attempt (one send among them):
  a header of fewer than 16 bytes is followed at once by the next attempt on the same
  socket; a timeout is followed by the 0.5 s pause when another attempt remains, then
  by the next attempt on the same socket; a socket error other than a timeout makes the
  client close the socket, create a new one and connect it, when another attempt remains
  (\<open>i < retry\<close>), then pause and go on with the new socket, and a connect that fails
  there ends the call with that exception. After the last attempt nothing is closed. In
  every world at most \<open>retry + 1\<close> sends are made.
\<close>

theorem transport_failure_handling:
  assumes "fail_kind x blk = Some k"
  shows "(\<exists>acts. list_all is_io acts \<and> sends acts = 1 \<and>
     send_loop x retry msg (i # rest) so \<lparr>script = blk @ sc, trace = tr, next_sock = n\<rparr> =
       (case k of
          KShortHeader \<Rightarrow>
            send_loop x retry msg rest so \<lparr>script = sc, trace = tr @ acts, next_sock = n\<rparr>
        | KTimeout \<Rightarrow>
            send_loop x retry msg rest so
              \<lparr>script = sc, trace = tr @ acts @ (if i < retry then [ASleep (1 / 2)] else []),
               next_sock = n\<rparr>
        | KSocketError \<Rightarrow>
            if i < retry then
              (case sc of
                 Data c # sc' \<Rightarrow>
                   send_loop x retry msg rest n
                     \<lparr>script = sc',
                      trace = tr @ acts @ [AClose so, ACreate n, AConnect n, ASleep (1 / 2)],
                      next_sock = Suc n\<rparr>
               | SockErr # sc' \<Rightarrow>
                   (Raised SocketError, n,
                    \<lparr>script = sc', trace = tr @ acts @ [AClose so, ACreate n, AConnect n],
                     next_sock = Suc n\<rparr>)
               | TimedOut # sc' \<Rightarrow>
                   (Raised SocketTimeout, n,
                    \<lparr>script = sc', trace = tr @ acts @ [AClose so, ACreate n, AConnect n],
                     next_sock = Suc n\<rparr>)
               | [] \<Rightarrow>
                   (Raised SocketTimeout, n,
                    \<lparr>script = [], trace = tr @ acts @ [AClose so, ACreate n, AConnect n],
                     next_sock = Suc n\<rparr>))
            else send_loop x retry msg rest so \<lparr>script = sc, trace = tr @ acts, next_sock = n\<rparr>))
     \<and> (\<forall>so_var api_type params w.
           sends (trace (snd (snd (send_control_command x so_var api_type params retry w))))
             \<le> sends (trace w) + nat (retry + 1))"
proof
  from try_exchange_fail_kind[OF assms, of so msg sc tr n]
  obtain acts where io: "list_all is_io acts" and s1: "sends acts = 1"
    and ex: "try_exchange x so msg \<lparr>script = blk @ sc, trace = tr, next_sock = n\<rparr> =
       (case k of KShortHeader \<Rightarrow> Continue | KTimeout \<Rightarrow> Threw SocketTimeout
                | KSocketError \<Rightarrow> Threw SocketError,
        \<lparr>script = sc, trace = tr @ acts, next_sock = n\<rparr>)"
    by blast
  have "send_loop x retry msg (i # rest) so \<lparr>script = blk @ sc, trace = tr, next_sock = n\<rparr> =
       (case k of
          KShortHeader \<Rightarrow>
            send_loop x retry msg rest so \<lparr>script = sc, trace = tr @ acts, next_sock = n\<rparr>
        | KTimeout \<Rightarrow>
            send_loop x retry msg rest so
              \<lparr>script = sc, trace = tr @ acts @ (if i < retry then [ASleep (1 / 2)] else []),
               next_sock = n\<rparr>
        | KSocketError \<Rightarrow>
            if i < retry then
              (case sc of
                 Data c # sc' \<Rightarrow>
                   send_loop x retry msg rest n
                     \<lparr>script = sc',
                      trace = tr @ acts @ [AClose so, ACreate n, AConnect n, ASleep (1 / 2)],
                      next_sock = Suc n\<rparr>
               | SockErr # sc' \<Rightarrow>
                   (Raised SocketError, n,
                    \<lparr>script = sc', trace = tr @ acts @ [AClose so, ACreate n, AConnect n],
                     next_sock = Suc n\<rparr>)
               | TimedOut # sc' \<Rightarrow>
                   (Raised SocketTimeout, n,
                    \<lparr>script = sc', trace = tr @ acts @ [AClose so, ACreate n, AConnect n],
                     next_sock = Suc n\<rparr>)
               | [] \<Rightarrow>
                   (Raised SocketTimeout, n,
                    \<lparr>script = [], trace = tr @ acts @ [AClose so, ACreate n, AConnect n],
                     next_sock = Suc n\<rparr>))
            else send_loop x retry msg rest so \<lparr>script = sc, trace = tr @ acts, next_sock = n\<rparr>)"
  proof (cases k)
    case KShortHeader
    with ex show ?thesis by simp
  next
    case KTimeout
    with ex show ?thesis by (simp add: pause_explicit)
  next
    case KSocketError
    with ex show ?thesis
      by (simp add: pause_explicit sock_ops split: list.splits outcome.splits)
  qed
  with io s1 show "\<exists>acts. list_all is_io acts \<and> sends acts = 1 \<and>
     send_loop x retry msg (i # rest) so \<lparr>script = blk @ sc, trace = tr, next_sock = n\<rparr> =
       (case k of
          KShortHeader \<Rightarrow>
            send_loop x retry msg rest so \<lparr>script = sc, trace = tr @ acts, next_sock = n\<rparr>
        | KTimeout \<Rightarrow>
            send_loop x retry msg rest so
              \<lparr>script = sc, trace = tr @ acts @ (if i < retry then [ASleep (1 / 2)] else []),
               next_sock = n\<rparr>
        | KSocketError \<Rightarrow>
            if i < retry then
              (case sc of
                 Data c # sc' \<Rightarrow>
                   send_loop x retry msg rest n
                     \<lparr>script = sc',
                      trace = tr @ acts @ [AClose so, ACreate n, AConnect n, ASleep (1 / 2)],
                      next_sock = Suc n\<rparr>
               | SockErr # sc' \<Rightarrow>
                   (Raised SocketError, n,
                    \<lparr>script = sc', trace = tr @ acts @ [AClose so, ACreate n, AConnect n],
                     next_sock = Suc n\<rparr>)
               | TimedOut # sc' \<Rightarrow>
                   (Raised SocketTimeout, n,
                    \<lparr>script = sc', trace = tr @ acts @ [AClose so, ACreate n, AConnect n],
                     next_sock = Suc n\<rparr>)
               | [] \<Rightarrow>
                   (Raised SocketTimeout, n,
                    \<lparr>script = [], trace = tr @ acts @ [AClose so, ACreate n, AConnect n],
                     next_sock = Suc n\<rparr>))
            else send_loop x retry msg rest so \<lparr>script = sc, trace = tr @ acts, next_sock = n\<rparr>)"
    by blast
next
  show "\<forall>so_var api_type params w.
           sends (trace (snd (snd (send_control_command x so_var api_type params retry w))))
             \<le> sends (trace w) + nat (retry + 1)"
    using send_control_command_sends_le by blast
qed

theorem transport_failure_handling_witness:
  "fail_kind demo [Data [], SockErr] = Some KSocketError
   \<and> (\<exists>acts. list_all is_io acts \<and> sends acts = 1 \<and>
        send_loop demo 1 (packMsg demo 1 2000 (JObj [])) [0, 1] 0
          \<lparr>script = [Data [], SockErr, Data [], Data [], TimedOut], trace = [], next_sock = 1\<rparr> =
        send_loop demo 1 (packMsg demo 1 2000 (JObj [])) [1] 1
          \<lparr>script = [Data [], TimedOut],
           trace = acts @ [AClose 0, ACreate 1, AConnect 1, ASleep (1 / 2)], next_sock = 2\<rparr>)"
  using transport_failure_handling[where x = demo and blk = "[Data [], SockErr]"
      and k = KSocketError and retry = 1 and msg = "packMsg demo 1 2000 (JObj [])" and i = 0
      and rest = "[1]" and so = 0 and sc = "[Data [], Data [], TimedOut]" and tr = "[]" and n = 1]
  by (simp del: send_loop.simps add: numeral_2_eq_2)

section \<open>A response without ret_code\<close>

text \<open>
  Claim C9. When the body of a command response decodes to a JSON object without a
  \<open>ret_code\<close> entry, the lookup defaults to 0 and \<open>send_control_command\<close> returns
  \<open>True\<close> from that attempt, after one send, the header read and one body read.
\<close>

theorem missing_ret_code_is_success:
  assumes "0 \<le> retry"
    and "packMsg x 1 api_type params \<noteq> []"
    and "length (take 16 h) = 16"
    and "unpackHead x (take 16 h) = Inr (len, c)"
    and "0 < len" and "len \<le> 10 * 1024 * 1024"
    and "json_loads x (take (nat len) b) = Inr (JObj kvs)"
    and "map_of kvs ''ret_code'' = None"
  shows "send_control_command x (Some so) api_type params retry
           \<lparr>script = Data d # Data h # Data b # sc, trace = tr, next_sock = n\<rparr> =
         (Returned True, Some so,
          \<lparr>script = sc,
           trace = tr @ [ASend so (packMsg x 1 api_type params), ASetTimeout so 5,
                         ARecv so 16, ARecv so len],
           next_sock = n\<rparr>)"
proof -
  have ex: "try_exchange x so (packMsg x 1 api_type params)
              \<lparr>script = Data d # Data h # Data b # sc, trace = tr, next_sock = n\<rparr> =
            (ReturnTrue,
             \<lparr>script = sc,
              trace = tr @ [ASend so (packMsg x 1 api_type params), ASetTimeout so 5,
                            ARecv so 16, ARecv so len],
              next_sock = n\<rparr>)"
    using assms(3-8)
    by (simp add: try_exchange_def sock_ops recv_resp_json_def check_ret_code_def py_get_def)
  have up: "[0..retry] = 0 # [1..retry]"
    using assms(1) by (simp add: upto_rec1)
  show ?thesis
    using assms(2) ex by (simp add: send_control_command_def up)
qed

theorem missing_ret_code_is_success_witness:
  \<open>(0::int) \<le> 1 \<and> packMsg demo 1 2000 (JObj []) \<noteq> []
   \<and> length (take 16 header15) = 16
   \<and> unpackHead demo (take 16 header15) = Inr (15, 12000)
   \<and> (0::int) < 15 \<and> (15::int) \<le> 10 * 1024 * 1024
   \<and> json_loads demo (take (nat 15) ''{"status":"ok"}'') = Inr (JObj [(''status'', JStr ''ok'')])
   \<and> map_of [(''status'', JStr ''ok'')] ''ret_code'' = None
   \<and> send_control_command demo (Some 0) 2000 (JObj []) 1
         (connected [Data [], Data header15, Data ''{"status":"ok"}'']) =
       (Returned True, Some 0,
        \<lparr>script = [],
         trace = [ASend 0 (packMsg demo 1 2000 (JObj [])), ASetTimeout 0 5, ARecv 0 16, ARecv 0 15],
         next_sock = 1\<rparr>)\<close>
proof -
  have a: "packMsg demo 1 2000 (JObj []) \<noteq> []"
    by (simp add: demo_def demo_packMsg_def)
  have b: "length (take 16 header15) = 16"
    by (simp add: header15_def)
  have c: "unpackHead demo (take 16 header15) = Inr (15, 12000)"
    by (simp add: demo_def demo_unpackHead_def header15_def be_int_def)
  have d: \<open>json_loads demo (take (nat 15) ''{"status":"ok"}'') = Inr (JObj [(''status'', JStr ''ok'')])\<close>
    by (simp add: demo_def demo_json_loads_def)
  have e: "map_of [(''status'', JStr ''ok'')] ''ret_code'' = None"
    by simp
  show ?thesis
    using missing_ret_code_is_success[where retry = 1 and x = demo and api_type = 2000
        and params = "JObj []" and h = header15 and len = 15 and c = 12000
        and b = \<open>''{"status":"ok"}''\<close> and kvs = "[(''status'', JStr ''ok'')]"
        and so = 0 and d = "[]" and sc = "[]" and tr = "[]" and n = 1, OF _ a b c _ _ d e]
      a b c d e
    by (simp add: connected_def)
qed

section \<open>Reading framed units\<close>

text \<open>
  Claim C10. For every expected length \<open>n\<close>, \<open>receive_full_data\<close> returns \<open>None\<close> or a
  byte string of exactly \<open>n\<close> bytes, unless a \<open>recv\<close> raises (a timeout or a socket
  error, which leaves the function without a return value). For \<open>n = 0\<close> it returns
  the empty byte string and the world is unchanged: nothing was read.
\<close>

theorem receive_full_data_none_or_exact:
  "(case fst (receive_full_data s n w) of
      Returned None \<Rightarrow> True
    | Returned (Some b) \<Rightarrow> int (length b) = n
    | Raised e \<Rightarrow> e = SocketTimeout \<or> e = SocketError)
   \<and> receive_full_data s 0 w = (Returned (Some []), w)"
proof
  have raised: "fst (receive_full_data_loop s received remaining w) = Raised e
      \<Longrightarrow> e = SocketTimeout \<or> e = SocketError" for received remaining w e
  proof (induction s received remaining w rule: receive_full_data_loop.induct)
    case (1 s received remaining w)
    show ?case
    proof (cases "remaining > 0")
      case False
      with "1.prems" show ?thesis by simp
    next
      case True
      obtain r wa where rc: "sock_recv s (min remaining 8192) w = (r, wa)"
        by (cases "sock_recv s (min remaining 8192) w")
      show ?thesis
      proof (cases r)
        case (Inl e')
        with True rc "1.prems" have "e = e'" by simp
        moreover have "e' = SocketTimeout \<or> e' = SocketError"
          using rc Inl
          by (auto simp: sock_recv_def split: prod.splits outcome.splits)
        ultimately show ?thesis by simp
      next
        case (Inr chunk)
        show ?thesis
        proof (cases "chunk = []")
          case True
          with \<open>remaining > 0\<close> rc Inr "1.prems" show ?thesis by simp
        next
          case False
          with True rc Inr "1.prems"
          have "fst (receive_full_data_loop s (received @ chunk) (remaining - int (length chunk)) wa)
                  = Raised e"
            by simp
          from "1.IH"[OF True rc[symmetric] Inr False this] show ?thesis .
        qed
      qed
    qed
  qed
  obtain r w1 where res: "receive_full_data s n w = (r, w1)"
    by (cases "receive_full_data s n w")
  show "case fst (receive_full_data s n w) of
      Returned None \<Rightarrow> True
    | Returned (Some b) \<Rightarrow> int (length b) = n
    | Raised e \<Rightarrow> e = SocketTimeout \<or> e = SocketError"
  proof (cases r)
    case (Raised e)
    with res have "fst (receive_full_data_loop s [] n w) = Raised e"
      by (auto simp: receive_full_data_def split: prod.splits result.splits option.splits if_splits)
    from raised[OF this] res Raised show ?thesis by simp
  next
    case (Returned v)
    show ?thesis
    proof (cases v)
      case None
      with res Returned show ?thesis by simp
    next
      case (Some b)
      with res Returned receive_full_data_exact[of s n w b w1] show ?thesis by simp
    qed
  qed
next
  show "receive_full_data s 0 w = (Returned (Some []), w)"
    by (rule receive_full_data_zero)
qed

text \<open>
  Claim C5 as stated: every read of a framed unit, the 16-byte header included,
  accumulates the requested bytes by looping over successive reads. It fails for the
  header: when the first \<open>recv(16)\<close> of \<open>get_laser_from_agv\<close> delivers only 8 of the
  16 header bytes, no second read is made although the rest is on its way; the function
  closes the socket and returns \<open>None\<close>.
\<close>

theorem header_read_is_single_recv:
  \<open>get_laser_from_agv demo
     (start [Data [], Data [], Data (take 8 laser_header13), Data (drop 8 laser_header13),
             Data ''{"lasers":[]}'']) =
   (Returned None,
    \<lparr>script = [Data (drop 8 laser_header13), Data ''{"lasers":[]}''],
     trace = [ACreate 0, ASetTimeout 0 8, AKeepAlive 0, AConnect 0,
              ASend 0 (packMsg demo 1 1009 (JObj [(''step'', JNum (Finite 1))])),
              ARecv 0 16, AClose 0],
     next_sock = 1\<rparr>)\<close>
  by code_simp

text \<open>
  Claim C5, amended. \<open>receive_full_data\<close>, which reads the body in
  \<open>get_laser_from_agv\<close>, accumulates exactly the expected number of bytes by looping
  over successive \<open>recv\<close> calls, each asking for the bytes still missing (at most 8192),
  whatever the sizes of the chunks delivered, and returns \<open>None\<close> as soon as a \<open>recv\<close>
  returns no bytes. The 16-byte header is read with a single \<open>recv(16)\<close> in both
  programs; when it returns fewer than 16 bytes \<open>get_laser_from_agv\<close> returns \<open>None\<close>
  and \<open>send_control_command\<close> abandons the attempt, so neither goes on with a partial
  header.
\<close>

theorem framed_reads:
  assumes "\<forall>c\<in>set chunks. c \<noteq> [] \<and> length c \<le> 8192"
    and "\<forall>c\<in>set part. c \<noteq> [] \<and> length c \<le> 8192"
    and "int (length (concat part)) < len"
    and "length h < 16"
    and "packMsg x 1 (robot_status_laser_req x) (JObj [(''step'', JNum (Finite (of_int LASER_STEP)))]) \<noteq> []"
  shows "receive_full_data s (int (length (concat chunks)))
           \<lparr>script = map Data chunks @ sc, trace = tr, next_sock = n\<rparr> =
         (Returned (Some (concat chunks)),
          \<lparr>script = sc, trace = tr @ chunk_reads s (int (length (concat chunks))) chunks,
           next_sock = n\<rparr>)
       \<and> receive_full_data s len
           \<lparr>script = map Data part @ Data [] # sc, trace = tr, next_sock = n\<rparr> =
         (Returned None,
          \<lparr>script = sc,
           trace = tr @ chunk_reads s len part
                      @ [ARecv s (min (len - int (length (concat part))) 8192)],
           next_sock = n\<rparr>)
       \<and> get_laser_from_agv x \<lparr>script = Data c # Data d # Data h # sc, trace = tr, next_sock = n\<rparr> =
         (Returned None,
          \<lparr>script = sc,
           trace = tr @ [ACreate n, ASetTimeout n 8, AKeepAlive n, AConnect n,
                     ASend n (packMsg x 1 (robot_status_laser_req x)
                                (JObj [(''step'', JNum (Finite (of_int LASER_STEP)))])),
                     ARecv n 16, AClose n],
           next_sock = Suc n\<rparr>)
       \<and> try_exchange x so msg \<lparr>script = Data d # Data h # sc, trace = tr, next_sock = n\<rparr> =
         (Continue,
          \<lparr>script = sc, trace = tr @ [ASend so msg, ASetTimeout so 5, ARecv so 16],
           next_sock = n\<rparr>)"
proof (intro conjI)
  show "receive_full_data s (int (length (concat chunks)))
           \<lparr>script = map Data chunks @ sc, trace = tr, next_sock = n\<rparr> =
         (Returned (Some (concat chunks)),
          \<lparr>script = sc, trace = tr @ chunk_reads s (int (length (concat chunks))) chunks,
           next_sock = n\<rparr>)"
    using receive_loop_chunks[OF assms(1) refl, of s "[]" sc tr n]
    by (simp add: receive_full_data_def del: receive_full_data_loop.simps)
next
  show "receive_full_data s len
           \<lparr>script = map Data part @ Data [] # sc, trace = tr, next_sock = n\<rparr> =
         (Returned None,
          \<lparr>script = sc,
           trace = tr @ chunk_reads s len part
                      @ [ARecv s (min (len - int (length (concat part))) 8192)],
           next_sock = n\<rparr>)"
    using receive_loop_closed[OF assms(2,3), of s "[]" sc tr n]
    by (simp add: receive_full_data_def del: receive_full_data_loop.simps)
next
  show "get_laser_from_agv x \<lparr>script = Data c # Data d # Data h # sc, trace = tr, next_sock = n\<rparr> =
         (Returned None,
          \<lparr>script = sc,
           trace = tr @ [ACreate n, ASetTimeout n 8, AKeepAlive n, AConnect n,
                     ASend n (packMsg x 1 (robot_status_laser_req x)
                                (JObj [(''step'', JNum (Finite (of_int LASER_STEP)))])),
                     ARecv n 16, AClose n],
           next_sock = Suc n\<rparr>)"
    using assms(4,5)
    by (simp add: get_laser_from_agv_def laser_try_def connect_to_agv_first laser_exchange_def
        sock_ops)
next
  show "try_exchange x so msg \<lparr>script = Data d # Data h # sc, trace = tr, next_sock = n\<rparr> =
         (Continue,
          \<lparr>script = sc, trace = tr @ [ASend so msg, ASetTimeout so 5, ARecv so 16],
           next_sock = n\<rparr>)"
    using assms(4) by (simp add: try_exchange_def sock_ops)
qed

theorem framed_reads_witness:
  \<open>(''{"lase'' \<noteq> [] \<and> length ''{"lase'' \<le> 8192) \<and> (''rs":[]}'' \<noteq> [] \<and> length ''rs":[]}'' \<le> 8192)
   \<and> (''{"la'' \<noteq> [] \<and> length ''{"la'' \<le> 8192)
   \<and> int (length (concat [''{"la''])) < 13
   \<and> length (take 8 laser_header13) < 16
   \<and> packMsg demo 1 (robot_status_laser_req demo) (JObj [(''step'', JNum (Finite (of_int LASER_STEP)))]) \<noteq> []
   \<and> receive_full_data 0 13 (connected [Data ''{"lase'', Data ''rs":[]}'']) =
       (Returned (Some ''{"lasers":[]}''),
        \<lparr>script = [], trace = [ARecv 0 13, ARecv 0 7], next_sock = 1\<rparr>)
   \<and> receive_full_data 0 13 (connected [Data ''{"la'', Data []]) =
       (Returned None, \<lparr>script = [], trace = [ARecv 0 13, ARecv 0 9], next_sock = 1\<rparr>)
   \<and> get_laser_from_agv demo (connected [Data [], Data [], Data (take 8 laser_header13)]) =
       (Returned None,
        \<lparr>script = [],
         trace = [ACreate 1, ASetTimeout 1 8, AKeepAlive 1, AConnect 1,
                  ASend 1 (packMsg demo 1 (robot_status_laser_req demo)
                             (JObj [(''step'', JNum (Finite (of_int LASER_STEP)))])),
                  ARecv 1 16, AClose 1],
         next_sock = 2\<rparr>)
   \<and> try_exchange demo 0 ''request'' (connected [Data [], Data (take 8 laser_header13)]) =
       (Continue,
        \<lparr>script = [], trace = [ASend 0 ''request'', ASetTimeout 0 5, ARecv 0 16], next_sock = 1\<rparr>)\<close>
proof -
  have m: "packMsg demo 1 (robot_status_laser_req demo) (JObj [(''step'', JNum (Finite (of_int LASER_STEP)))]) \<noteq> []"
    by (simp add: demo_def demo_packMsg_def)
  have h: "length (take 8 laser_header13) < 16"
    by (simp add: laser_header13_def)
  show ?thesis
    using framed_reads[where chunks = \<open>[''{"lase'', ''rs":[]}'']\<close> and part = \<open>[''{"la'']\<close>
        and len = 13 and h = "take 8 laser_header13" and x = demo and s = 0 and sc = "[]"
        and tr = "[]" and n = 1 and c = "[]" and d = "[]" and so = 0 and msg = "''request''"]
      m h
    by (simp add: connected_def)
qed

section \<open>The beam filter\<close>

text \<open>
  Claim C6 as stated: for every decoded sensor payload the filter output is exactly the
  beams that carry an angle and a distance, have validity flag true and a distance
  within the bounds. It fails on payloads that are not shaped as the interface describes.
  A beam whose \<open>dist\<close> is a string makes the range comparison raise \<open>TypeError\<close>,
  which ends the whole decode although the beam before it qualifies. A beam whose
  \<open>valid\<close> field is the number 1 is kept although its flag is not \<open>true\<close>. A beam or
  a beam group that is a number raises as well.
\<close>

theorem filter_beams_ill_typed_payload:
  "filter_beams LASER_RANGE_MIN LASER_RANGE_MAX
     [JObj [(''beams'', JArr
        [JObj [(''angle'', JNum (Finite 0)), (''dist'', JNum (Finite 1)), (''valid'', JBool True)],
         JObj [(''angle'', JNum (Finite 0)), (''dist'', JStr ''far''), (''valid'', JBool True)]])]]
     = Inl TypeError
   \<and> extract_points (JObj [(''lasers'', JArr
     [JObj [(''beams'', JArr
        [JObj [(''angle'', JNum (Finite 0)), (''dist'', JNum (Finite 1)), (''valid'', JBool True)],
         JObj [(''angle'', JNum (Finite 0)), (''dist'', JStr ''far''), (''valid'', JBool True)]])]])])
     = Raised TypeError
   \<and> spec_filter LASER_RANGE_MIN LASER_RANGE_MAX (all_beams
     [JObj [(''beams'', JArr
        [JObj [(''angle'', JNum (Finite 0)), (''dist'', JNum (Finite 1)), (''valid'', JBool True)],
         JObj [(''angle'', JNum (Finite 0)), (''dist'', JStr ''far''), (''valid'', JBool True)]])]])
     = [(JNum (Finite 0), JNum (Finite 1))]
   \<and> filter_beams LASER_RANGE_MIN LASER_RANGE_MAX
     [JObj [(''beams'', JArr
        [JObj [(''angle'', JNum (Finite 0)), (''dist'', JNum (Finite 1)),
               (''valid'', JNum (Finite 1))]])]]
     = Inr [(JNum (Finite 0), JNum (Finite 1))]
   \<and> spec_filter LASER_RANGE_MIN LASER_RANGE_MAX (all_beams
     [JObj [(''beams'', JArr
        [JObj [(''angle'', JNum (Finite 0)), (''dist'', JNum (Finite 1)),
               (''valid'', JNum (Finite 1))]])]])
     = []
   \<and> filter_beams LASER_RANGE_MIN LASER_RANGE_MAX [JObj [(''beams'', JArr [JNum (Finite 7)])]]
     = Inl TypeError
   \<and> filter_beams LASER_RANGE_MIN LASER_RANGE_MAX [JNum (Finite 7)] = Inl AttributeError"
  by code_simp

text \<open>
  Claim C6, amended. For every decoded sensor payload shaped as the interface describes
  it (each beam group is an object whose \<open>beams\<close> entry, when present, is a list of
  objects; a \<open>dist\<close> field is a number and a \<open>valid\<close> field a boolean) and for any
  bounds, the filter loops of \<open>get_laser_from_agv\<close> produce exactly the beams that
  carry an angle and a distance, have validity flag true and a distance within the
  bounds, as angle and distance pairs in source order. For the three beams of the
  specification's example and the range from 0.1 to 5.0 the result is the single point
  with angle 0 and distance 1.0, and that list is what \<open>get_laser_from_agv\<close> hands back.
\<close>

theorem filter_beams_matches_spec:
  assumes "list_all wf_group laser_beams"
  shows "filter_beams range_min range_max laser_beams =
           Inr (spec_filter range_min range_max (all_beams laser_beams))
         \<and> filter_beams LASER_RANGE_MIN LASER_RANGE_MAX [JObj [(''beams'', JArr example_beams)]] =
           Inr [(JNum (Finite 0), JNum (Finite 1))]
         \<and> extract_points (JObj [(''lasers'', JArr [JObj [(''beams'', JArr example_beams)]])]) =
           Returned (Some [(JNum (Finite 0), JNum (Finite 1))])"
proof (intro conjI)
  show "filter_beams range_min range_max laser_beams =
           Inr (spec_filter range_min range_max (all_beams laser_beams))"
    using lasers_loop_wf[OF assms, of range_min range_max "[]"]
    by (simp add: filter_beams_def)
next
  show "filter_beams LASER_RANGE_MIN LASER_RANGE_MAX [JObj [(''beams'', JArr example_beams)]] =
           Inr [(JNum (Finite 0), JNum (Finite 1))]"
    by code_simp
next
  show "extract_points (JObj [(''lasers'', JArr [JObj [(''beams'', JArr example_beams)]])]) =
           Returned (Some [(JNum (Finite 0), JNum (Finite 1))])"
    by code_simp
qed

theorem filter_beams_matches_spec_witness:
  "list_all wf_group [JObj [(''beams'', JArr example_beams)]]
   \<and> filter_beams LASER_RANGE_MIN LASER_RANGE_MAX [JObj [(''beams'', JArr example_beams)]] =
       Inr (spec_filter LASER_RANGE_MIN LASER_RANGE_MAX
              (all_beams [JObj [(''beams'', JArr example_beams)]]))
   \<and> spec_filter LASER_RANGE_MIN LASER_RANGE_MAX
        (all_beams [JObj [(''beams'', JArr example_beams)]]) = [(JNum (Finite 0), JNum (Finite 1))]"
proof -
  have wf: "list_all wf_group [JObj [(''beams'', JArr example_beams)]]"
    by code_simp
  have sp: "spec_filter LASER_RANGE_MIN LASER_RANGE_MAX
        (all_beams [JObj [(''beams'', JArr example_beams)]]) = [(JNum (Finite 0), JNum (Finite 1))]"
    by code_simp
  show ?thesis
    using filter_beams_matches_spec[OF wf, of LASER_RANGE_MIN LASER_RANGE_MAX] wf sp
    by simp
qed

section \<open>No valid data\<close>

text \<open>
  Claim C7 as stated: without usable beams the sensor decode returns an empty sequence
  and a signal that the caller can tell from a transport or protocol error. It fails:
  for an empty \<open>lasers\<close> list, for a payload whose only beam is out of range, and for a
  header read that times out, \<open>get_laser_from_agv\<close> returns the same value \<open>None\<close>.
\<close>

theorem no_valid_data_returns_none_like_errors:
  \<open>fst (get_laser_from_agv demo
          (start [Data [], Data [], Data laser_header13, Data ''{"lasers":[]}''])) = Returned None
   \<and> fst (get_laser_from_agv demo
          (start [Data [], Data [], Data laser_header61,
                  Data ''{"lasers":[{"beams":[{"angle":0,"dist":30.0,"valid":true}]}]}''])) = Returned None
   \<and> fst (get_laser_from_agv demo (start [Data [], Data [], TimedOut])) = Returned None\<close>
  by code_simp

text \<open>
  Claim C7, amended. When the exchange succeeds and the decoded payload has no usable
  beams (the \<open>lasers\<close> entry is absent, is not a list, is empty, or every beam is
  skipped), \<open>get_laser_from_agv\<close> closes the socket and returns \<open>None\<close>. That is
  also the value it returns when the header read times out and when the header carries a
  response type other than the laser response type. It returns neither an empty sequence
  nor a separate signal.
\<close>

theorem no_valid_data_returns_none:
  assumes "packMsg x 1 (robot_status_laser_req x) (JObj [(''step'', JNum (Finite (of_int LASER_STEP)))]) \<noteq> []"
    and "length (take 16 h) = 16"
    and "unpackHead x (take 16 h) = Inr (len, ROBOT_STATUS_LASER_RESP)"
    and "len \<le> MAX_DATA_LEN"
    and "\<forall>c\<in>set chunks. c \<noteq> [] \<and> length c \<le> 8192"
    and "int (length (concat chunks)) = len"
    and "chunks \<noteq> []"
    and "json_loads x (concat chunks) = Inr laser_json"
    and "no_valid_data laser_json"
    and "length (take 16 h') = 16"
    and "unpackHead x (take 16 h') = Inr (len', resp_type)"
    and "resp_type \<noteq> ROBOT_STATUS_LASER_RESP"
  shows "get_laser_from_agv x
           \<lparr>script = Data c # Data d # Data h # map Data chunks @ sc, trace = tr, next_sock = n\<rparr> =
         (Returned None,
          \<lparr>script = sc,
           trace = tr @ [ACreate n, ASetTimeout n 8, AKeepAlive n, AConnect n,
                     ASend n (packMsg x 1 (robot_status_laser_req x)
                                (JObj [(''step'', JNum (Finite (of_int LASER_STEP)))])),
                     ARecv n 16] @ chunk_reads n len chunks @ [AClose n],
           next_sock = Suc n\<rparr>)
       \<and> get_laser_from_agv x \<lparr>script = Data c # Data d # TimedOut # sc, trace = tr, next_sock = n\<rparr> =
         (Returned None,
          \<lparr>script = sc,
           trace = tr @ [ACreate n, ASetTimeout n 8, AKeepAlive n, AConnect n,
                     ASend n (packMsg x 1 (robot_status_laser_req x)
                                (JObj [(''step'', JNum (Finite (of_int LASER_STEP)))])),
                     ARecv n 16, AClose n],
           next_sock = Suc n\<rparr>)
       \<and> get_laser_from_agv x \<lparr>script = Data c # Data d # Data h' # sc, trace = tr, next_sock = n\<rparr> =
         (Returned None,
          \<lparr>script = sc,
           trace = tr @ [ACreate n, ASetTimeout n 8, AKeepAlive n, AConnect n,
                     ASend n (packMsg x 1 (robot_status_laser_req x)
                                (JObj [(''step'', JNum (Finite (of_int LASER_STEP)))])),
                     ARecv n 16, AClose n],
           next_sock = Suc n\<rparr>)"
proof (intro conjI)
  show "get_laser_from_agv x
           \<lparr>script = Data c # Data d # Data h # map Data chunks @ sc, trace = tr, next_sock = n\<rparr> =
         (Returned None,
          \<lparr>script = sc,
           trace = tr @ [ACreate n, ASetTimeout n 8, AKeepAlive n, AConnect n,
                     ASend n (packMsg x 1 (robot_status_laser_req x)
                                (JObj [(''step'', JNum (Finite (of_int LASER_STEP)))])),
                     ARecv n 16] @ chunk_reads n len chunks @ [AClose n],
           next_sock = Suc n\<rparr>)"
    using get_laser_decoded[OF assms(1-8), of c d sc tr n] no_valid_data_extract[OF assms(9)]
    by simp
next
  show "get_laser_from_agv x \<lparr>script = Data c # Data d # TimedOut # sc, trace = tr, next_sock = n\<rparr> =
         (Returned None,
          \<lparr>script = sc,
           trace = tr @ [ACreate n, ASetTimeout n 8, AKeepAlive n, AConnect n,
                     ASend n (packMsg x 1 (robot_status_laser_req x)
                                (JObj [(''step'', JNum (Finite (of_int LASER_STEP)))])),
                     ARecv n 16, AClose n],
           next_sock = Suc n\<rparr>)"
    using assms(1)
    by (simp add: get_laser_from_agv_def laser_try_def connect_to_agv_first laser_exchange_def
        sock_ops)
next
  show "get_laser_from_agv x \<lparr>script = Data c # Data d # Data h' # sc, trace = tr, next_sock = n\<rparr> =
         (Returned None,
          \<lparr>script = sc,
           trace = tr @ [ACreate n, ASetTimeout n 8, AKeepAlive n, AConnect n,
                     ASend n (packMsg x 1 (robot_status_laser_req x)
                                (JObj [(''step'', JNum (Finite (of_int LASER_STEP)))])),
                     ARecv n 16, AClose n],
           next_sock = Suc n\<rparr>)"
    using assms(1,10,11,12)
    by (simp add: get_laser_from_agv_def laser_try_def connect_to_agv_first laser_exchange_def
        sock_ops)
qed

theorem no_valid_data_returns_none_witness:
  \<open>packMsg demo 1 (robot_status_laser_req demo) (JObj [(''step'', JNum (Finite (of_int LASER_STEP)))]) \<noteq> []
   \<and> length (take 16 laser_header61) = 16
   \<and> unpackHead demo (take 16 laser_header61) = Inr (61, ROBOT_STATUS_LASER_RESP)
   \<and> (61::int) \<le> MAX_DATA_LEN
   \<and> no_valid_data (JObj [(''lasers'', JArr [JObj [(''beams'',
               JArr [JObj [(''angle'', JNum (Finite 0)), (''dist'', JNum (Finite 30)),
                           (''valid'', JBool True)]])]])])
   \<and> length (take 16 header14) = 16
   \<and> unpackHead demo (take 16 header14) = Inr (14, 12000)
   \<and> (12000::int) \<noteq> ROBOT_STATUS_LASER_RESP
   \<and> get_laser_from_agv demo
        (connected [Data [], Data [], Data laser_header61,
                    Data ''{"lasers":[{"beams":[{"angle":0,'', Data ''"dist":30.0,"valid":true}]}]}'']) =
       (Returned None,
        \<lparr>script = [],
         trace = [ACreate 1, ASetTimeout 1 8, AKeepAlive 1, AConnect 1,
                  ASend 1 (packMsg demo 1 (robot_status_laser_req demo)
                             (JObj [(''step'', JNum (Finite (of_int LASER_STEP)))])),
                  ARecv 1 16, ARecv 1 61, ARecv 1 29, AClose 1],
         next_sock = 2\<rparr>)
   \<and> get_laser_from_agv demo (connected [Data [], Data [], TimedOut]) =
       (Returned None,
        \<lparr>script = [],
         trace = [ACreate 1, ASetTimeout 1 8, AKeepAlive 1, AConnect 1,
                  ASend 1 (packMsg demo 1 (robot_status_laser_req demo)
                             (JObj [(''step'', JNum (Finite (of_int LASER_STEP)))])),
                  ARecv 1 16, AClose 1],
         next_sock = 2\<rparr>)
   \<and> get_laser_from_agv demo (connected [Data [], Data [], Data header14]) =
       (Returned None,
        \<lparr>script = [],
         trace = [ACreate 1, ASetTimeout 1 8, AKeepAlive 1, AConnect 1,
                  ASend 1 (packMsg demo 1 (robot_status_laser_req demo)
                             (JObj [(''step'', JNum (Finite (of_int LASER_STEP)))])),
                  ARecv 1 16, AClose 1],
         next_sock = 2\<rparr>)\<close>
proof -
  have a1: "packMsg demo 1 (robot_status_laser_req demo) (JObj [(''step'', JNum (Finite (of_int LASER_STEP)))]) \<noteq> []"
    by (simp add: demo_def demo_packMsg_def)
  have a2: "length (take 16 laser_header61) = 16"
    by (simp add: laser_header61_def)
  have a3: "unpackHead demo (take 16 laser_header61) = Inr (61, ROBOT_STATUS_LASER_RESP)"
    by (simp add: demo_def demo_unpackHead_def laser_header61_def be_int_def ROBOT_STATUS_LASER_RESP_def)
  have a4: "(61::int) \<le> MAX_DATA_LEN"
    by (simp add: MAX_DATA_LEN_def)
  have a5: \<open>\<forall>c\<in>set [''{"lasers":[{"beams":[{"angle":0,'', ''"dist":30.0,"valid":true}]}]}''].
              c \<noteq> [] \<and> length c \<le> 8192\<close>
    by simp
  have a6: \<open>int (length (concat [''{"lasers":[{"beams":[{"angle":0,'', ''"dist":30.0,"valid":true}]}]}''])) = 61\<close>
    by simp
  have a7: \<open>[''{"lasers":[{"beams":[{"angle":0,'', ''"dist":30.0,"valid":true}]}]}''] \<noteq> []\<close>
    by simp
  have a8: \<open>json_loads demo (concat [''{"lasers":[{"beams":[{"angle":0,'', ''"dist":30.0,"valid":true}]}]}'']) =
      Inr (JObj [(''lasers'', JArr [JObj [(''beams'',
               JArr [JObj [(''angle'', JNum (Finite 0)), (''dist'', JNum (Finite 30)),
                           (''valid'', JBool True)]])]])])\<close>
    by (simp add: demo_def demo_json_loads_def)
  have a9: "no_valid_data (JObj [(''lasers'', JArr [JObj [(''beams'',
               JArr [JObj [(''angle'', JNum (Finite 0)), (''dist'', JNum (Finite 30)),
                           (''valid'', JBool True)]])]])])"
    by code_simp
  have a10: "length (take 16 header14) = 16"
    by (simp add: header14_def)
  have a11: "unpackHead demo (take 16 header14) = Inr (14, 12000)"
    by (simp add: demo_def demo_unpackHead_def header14_def be_int_def)
  have a12: "(12000::int) \<noteq> ROBOT_STATUS_LASER_RESP"
    by (simp add: ROBOT_STATUS_LASER_RESP_def)
  show ?thesis
    using no_valid_data_returns_none[OF a1 a2 a3 a4 a5 a6 a7 a8 a9 a10 a11 a12,
        where c = "[]" and d = "[]" and sc = "[]" and tr = "[]" and n = 1]
      a1 a2 a3 a4 a9 a10 a11 a12
    by (simp add: connected_def)
qed

section \<open>Shutdown\<close>



end
